theory Spec2Isabelle
  imports Complex_Main "HOL-Library.Word" "HOL-Library.Char_ord" "HOL-Library.List_Lexorder"
    "HOL-Library.AList"
begin

section \<open>Data model of \<^verbatim>\<open>megapose/nvmegapose.py\<close>\<close>

text \<open>
  Python exceptions are values. An \<^verbatim>\<open>assert\<close> that fails raises
  \<^verbatim>\<open>AssertionError\<close> (assertions are modelled as enabled, the interpreter's
  default); reading an attribute of \<^verbatim>\<open>None\<close> raises \<^verbatim>\<open>AttributeError\<close>.
  \<open>External\<close> stands for whatever an opaque collaborator (estimator, renderer,
  plotting backend, JSON decoder) raises.
\<close>

datatype error =
    AssertionError
  | AttributeError
  | FileNotFoundError
  | NotADirectoryError
  | IsADirectoryError
  | FileExistsError
  | UnidentifiedImageError
  | UnicodeDecodeError
  | RuntimeError
  | External string

text \<open>
  A numpy array or torch tensor: its shape and its entries by index. Entries of
  \<^verbatim>\<open>float32\<close> arrays are modelled as reals, so rounding is not modelled.
\<close>

record 'a ndarray =
  shape :: "nat list"
  item :: "nat list \<Rightarrow> 'a"

type_synonym Transform = "real list list"

definition eye :: "nat \<Rightarrow> Transform" where
  "eye n = map (\<lambda>i. map (\<lambda>j. if i = j then 1 else 0) [0..<n]) [0..<n]"

record CameraData =
  K :: "real list list option"
  resolution :: "(nat \<times> nat) option"
  TWC :: "Transform option"

record ObjectData =
  label :: string
  bbox_modal :: "real list option"
  TWO :: "Transform option"

text \<open>
  A decoded PNG as PIL presents it: the mode, the size as (width, height) and the stored
  samples by x, y and band. The modes are the 8-bit ones and 16-bit greyscale.
\<close>

datatype pil_mode = Mode_L | Mode_RGB | Mode_RGBA | Mode_I16

record image =
  mode :: pil_mode
  im_size :: "nat \<times> nat"
  getpixel :: "nat \<Rightarrow> nat \<Rightarrow> nat \<Rightarrow> nat"

fun bands :: "pil_mode \<Rightarrow> nat" where
  "bands Mode_L = 1"
| "bands Mode_RGB = 3"
| "bands Mode_RGBA = 4"
| "bands Mode_I16 = 1"

fun sample_bits :: "pil_mode \<Rightarrow> nat" where
  "sample_bits Mode_I16 = 16"
| "sample_bits m = 8"

definition width :: "image \<Rightarrow> nat" where
  "width im = fst (im_size im)"

definition height :: "image \<Rightarrow> nat" where
  "height im = snd (im_size im)"

text \<open>The samples of a stored image fit its bit depth.\<close>

definition image_ok :: "image \<Rightarrow> bool" where
  "image_ok im =
     (\<forall>x < width im. \<forall>y < height im. \<forall>b < bands (mode im).
        getpixel im x y b < 2 ^ sample_bits (mode im))"

text \<open>
  \<^verbatim>\<open>np.array(img)\<close>: a one-band image gives a (H, W) array, the others (H, W, C).
\<close>

definition array_shape :: "image \<Rightarrow> nat list" where
  "array_shape im =
     (if bands (mode im) = 1 then [height im, width im]
      else [height im, width im, bands (mode im)])"

fun sample :: "image \<Rightarrow> nat list \<Rightarrow> nat" where
  "sample im [y, x] = getpixel im x y 0"
| "sample im [y, x, b] = getpixel im x y b"
| "sample im idx = 0"

text \<open>\<^verbatim>\<open>np.array(img, dtype=np.uint8)\<close>: the cast to 8 bits wraps.\<close>

definition np_array_uint8 :: "image \<Rightarrow> 8 word ndarray" where
  "np_array_uint8 im = \<lparr>shape = array_shape im, item = (\<lambda>idx. of_nat (sample im idx))\<rparr>"

text \<open>\<^verbatim>\<open>np.array(img, dtype=np.float32)\<close>.\<close>

definition np_array_float32 :: "image \<Rightarrow> real ndarray" where
  "np_array_float32 im = \<lparr>shape = array_shape im, item = (\<lambda>idx. real (sample im idx))\<rparr>"

text \<open>\<^verbatim>\<open>array / d\<close>, elementwise.\<close>

definition array_div :: "real ndarray \<Rightarrow> real \<Rightarrow> real ndarray" where
  "array_div a d = \<lparr>shape = shape a, item = (\<lambda>idx. item a idx / d)\<rparr>"

text \<open>
  \<^verbatim>\<open>a.shape[:2] == camera_data.resolution\<close>: a tuple against the optional
  (H, W) pair of the camera record; a tuple never equals \<^verbatim>\<open>None\<close>.
\<close>

definition shape_matches :: "nat list \<Rightarrow> (nat \<times> nat) option \<Rightarrow> bool" where
  "shape_matches s r = (case r of None \<Rightarrow> False | Some (h, w) \<Rightarrow> take 2 s = [h, w])"

section \<open>The file system\<close>

text \<open>
  A path is its list of components. The file system lists every entry once, in the order
  in which the operating system enumerates it; an entry is a directory or a file, and a
  file holds text, a PNG image or other bytes (a mesh).
\<close>

datatype content = Text string | Png image | Blob

datatype entry = Dir | File content

type_synonym path = "string list"

type_synonym filesystem = "(path \<times> entry) list"

definition is_dir :: "filesystem \<Rightarrow> path \<Rightarrow> bool" where
  "is_dir fs p = (case map_of fs p of Some Dir \<Rightarrow> True | _ \<Rightarrow> False)"

text \<open>\<^verbatim>\<open>Path.read_text\<close>: a PNG file is not valid UTF-8.\<close>

definition read_text :: "filesystem \<Rightarrow> path \<Rightarrow> error + string" where
  "read_text fs p =
     (case map_of fs p of
        None \<Rightarrow> Inl FileNotFoundError
      | Some Dir \<Rightarrow> Inl IsADirectoryError
      | Some (File (Text s)) \<Rightarrow> Inr s
      | Some (File (Png im)) \<Rightarrow> Inl UnicodeDecodeError
      | Some (File Blob) \<Rightarrow> Inl UnicodeDecodeError)"

text \<open>\<^verbatim>\<open>PIL.Image.open\<close>.\<close>

definition Image_open :: "filesystem \<Rightarrow> path \<Rightarrow> error + image" where
  "Image_open fs p =
     (case map_of fs p of
        None \<Rightarrow> Inl FileNotFoundError
      | Some Dir \<Rightarrow> Inl IsADirectoryError
      | Some (File (Text s)) \<Rightarrow> Inl UnidentifiedImageError
      | Some (File (Png im)) \<Rightarrow> Inr im
      | Some (File Blob) \<Rightarrow> Inl UnidentifiedImageError)"

text \<open>
  The entries directly inside a directory, in the order of the listing, and
  \<^verbatim>\<open>Path.iterdir\<close>. \<^verbatim>\<open>Path.glob("*")\<close> yields the same entries and
  nothing at all on a path that is not a directory.
\<close>

definition children :: "filesystem \<Rightarrow> path \<Rightarrow> path list" where
  "children fs p = [q \<leftarrow> map fst fs. q \<noteq> [] \<and> butlast q = p]"

definition iterdir :: "filesystem \<Rightarrow> path \<Rightarrow> error + path list" where
  "iterdir fs p =
     (case map_of fs p of
        None \<Rightarrow> Inl FileNotFoundError
      | Some (File c) \<Rightarrow> Inl NotADirectoryError
      | Some Dir \<Rightarrow> Inr (children fs p))"

definition glob_star :: "filesystem \<Rightarrow> path \<Rightarrow> path list" where
  "glob_star fs p = (if is_dir fs p then children fs p else [])"

text \<open>
  \<^verbatim>\<open>Path.rglob("*" + ext)\<close>: every entry below the directory, reached through
  directories only, whose name ends with \<open>ext\<close> (the match is case sensitive and
  takes hidden names and directories too).
\<close>

definition ends_with :: "string \<Rightarrow> string \<Rightarrow> bool" where
  "ends_with s ext = (length ext \<le> length s \<and> drop (length s - length ext) s = ext)"

definition rglob :: "filesystem \<Rightarrow> path \<Rightarrow> string \<Rightarrow> path list" where
  "rglob fs p ext =
     [q \<leftarrow> map fst fs.
        length p < length q \<and> take (length p) q = p
        \<and> list_all (\<lambda>k. is_dir fs (take k q)) [length p..<length q]
        \<and> ends_with (last q) ext]"

text \<open>\<^verbatim>\<open>Path.name\<close>, \<^verbatim>\<open>str.rfind\<close> and \<^verbatim>\<open>Path.suffix\<close>.\<close>

definition name :: "path \<Rightarrow> string" where
  "name p = (if p = [] then [] else last p)"

fun rfind_from :: "string \<Rightarrow> char \<Rightarrow> int \<Rightarrow> int \<Rightarrow> int" where
  "rfind_from [] c i found = found"
| "rfind_from (x # xs) c i found = rfind_from xs c (i + 1) (if x = c then i else found)"

definition rfind :: "string \<Rightarrow> char \<Rightarrow> int" where
  "rfind s c = rfind_from s c 0 (- 1)"

definition suffix :: "path \<Rightarrow> string" where
  "suffix p =
     (let i = rfind (name p) CHR ''.''
      in if 0 < i \<and> i < int (length (name p)) - 1 then drop (nat i) (name p) else [])"

section \<open>Catalog Builder\<close>

text \<open>
  A catalog entry; the field \<^verbatim>\<open>label\<close> of \<^verbatim>\<open>RigidObject\<close> is
  \<open>rigid_label\<close> here. The constructor of \<^verbatim>\<open>RigidObjectDataset\<close> is not
  part of the file: the builders take it as a parameter that may raise.
\<close>

record RigidObject =
  rigid_label :: string
  mesh_path :: path
  mesh_units :: string

text \<open>The inner loop of \<^verbatim>\<open>make_object_dataset\<close> over the entries of one directory.\<close>

definition is_mesh :: "path \<Rightarrow> bool" where
  "is_mesh fn = (suffix fn \<in> {''.obj'', ''.ply''})"

fun find_mesh :: "path list \<Rightarrow> path option \<Rightarrow> error + path option" where
  "find_mesh [] found = Inr found"
| "find_mesh (fn # fns) found =
     (if is_mesh fn
      then (if found \<noteq> None then Inl AssertionError else find_mesh fns (Some fn))
      else find_mesh fns found)"

text \<open>
  The entries of an object directory that the inner loop takes for meshes: those whose
  suffix is \<^verbatim>\<open>.obj\<close> or \<^verbatim>\<open>.ply\<close>.
\<close>

definition mesh_candidates :: "filesystem \<Rightarrow> path \<Rightarrow> path list" where
  "mesh_candidates fs object_dir = filter is_mesh (glob_star fs object_dir)"

text \<open>The outer loop, over the entries of the root.\<close>

fun object_dirs_loop ::
  "filesystem \<Rightarrow> path list \<Rightarrow> RigidObject list \<Rightarrow> error + RigidObject list" where
  "object_dirs_loop fs [] rigid_objects = Inr rigid_objects"
| "object_dirs_loop fs (object_dir # rest) rigid_objects =
     (case find_mesh (glob_star fs object_dir) None of
        Inl e \<Rightarrow> Inl e
      | Inr None \<Rightarrow> Inl AssertionError
      | Inr (Some mesh) \<Rightarrow>
          object_dirs_loop fs rest
            (rigid_objects @
              [\<lparr>rigid_label = name object_dir, mesh_path = mesh, mesh_units = ''m''\<rparr>]))"

definition make_object_dataset ::
  "(RigidObject list \<Rightarrow> error + 'ds) \<Rightarrow> filesystem \<Rightarrow> path \<Rightarrow> error + 'ds" where
  "make_object_dataset RigidObjectDataset fs cad_model_dir =
     (case iterdir fs cad_model_dir of
        Inl e \<Rightarrow> Inl e
      | Inr object_dirs \<Rightarrow>
     (case object_dirs_loop fs object_dirs [] of
        Inl e \<Rightarrow> Inl e
      | Inr rigid_objects \<Rightarrow> RigidObjectDataset rigid_objects))"

text \<open>
  \<^verbatim>\<open>make_ycb_object_dataset\<close>. Paths sort by their components, strings by
  their characters. \<open>convert_number\<close> is \<^verbatim>\<open>self.Convert_YCB.convert_number\<close>,
  a parameter that may raise.
\<close>

fun ycb_loop ::
  "(nat \<Rightarrow> error + string) \<Rightarrow> (nat \<times> path) list \<Rightarrow> RigidObject list
     \<Rightarrow> error + RigidObject list" where
  "ycb_loop convert_number [] rigid_objects = Inr rigid_objects"
| "ycb_loop convert_number ((num, object_ply) # rest) rigid_objects =
     (case convert_number (num + 1) of
        Inl e \<Rightarrow> Inl e
      | Inr lbl \<Rightarrow>
          ycb_loop convert_number rest
            (rigid_objects @
              [\<lparr>rigid_label = lbl, mesh_path = object_ply, mesh_units = ''mm''\<rparr>]))"

definition make_ycb_object_dataset ::
  "(nat \<Rightarrow> error + string) \<Rightarrow> (RigidObject list \<Rightarrow> error + 'ds) \<Rightarrow> filesystem \<Rightarrow> path
     \<Rightarrow> error + 'ds" where
  "make_ycb_object_dataset convert_number RigidObjectDataset fs cad_model_dir =
     (let object_plys = sort (rglob fs cad_model_dir ''.ply'')
      in case ycb_loop convert_number (enumerate 0 object_plys) [] of
           Inl e \<Rightarrow> Inl e
         | Inr rigid_objects \<Rightarrow> RigidObjectDataset rigid_objects)"

section \<open>Observation Builder\<close>

text \<open>
  \<^verbatim>\<open>Megapose.load_observation\<close>. \<open>from_json\<close> is
  \<^verbatim>\<open>CameraData.from_json\<close>, which is not part of the file: a parameter.
\<close>

definition load_observation ::
  "(string \<Rightarrow> error + CameraData) \<Rightarrow> filesystem \<Rightarrow> path \<Rightarrow> bool
     \<Rightarrow> error + (8 word ndarray \<times> real ndarray option \<times> CameraData)" where
  "load_observation from_json fs example_dir load_depth =
     (case read_text fs (example_dir @ [''ycbv_camera_data.json'']) of
        Inl e \<Rightarrow> Inl e
      | Inr txt \<Rightarrow>
     (case from_json txt of
        Inl e \<Rightarrow> Inl e
      | Inr camera_data \<Rightarrow>
     (case Image_open fs (example_dir @ [''image_rgb.png'']) of
        Inl e \<Rightarrow> Inl e
      | Inr im \<Rightarrow>
          let rgb = np_array_uint8 im in
          if \<not> shape_matches (shape rgb) (resolution camera_data) then Inl AssertionError
          else if load_depth then
            (case Image_open fs (example_dir @ [''image_depth.png'']) of
               Inl e \<Rightarrow> Inl e
             | Inr depth_im \<Rightarrow>
                 let depth = array_div (np_array_float32 depth_im) 10000 in
                 if \<not> shape_matches (shape depth) (resolution camera_data)
                 then Inl AssertionError
                 else Inr (rgb, Some depth, camera_data))
          else Inr (rgb, None, camera_data))))"

text \<open>
  \<^verbatim>\<open>Megapose.load_observation_tensor\<close>; \<open>from_numpy\<close> is
  \<^verbatim>\<open>ObservationTensor.from_numpy\<close>, a parameter.
\<close>

definition load_observation_tensor ::
  "(string \<Rightarrow> error + CameraData)
     \<Rightarrow> (8 word ndarray \<Rightarrow> real ndarray option \<Rightarrow> real list list option \<Rightarrow> error + 'obs)
     \<Rightarrow> filesystem \<Rightarrow> path \<Rightarrow> bool \<Rightarrow> error + 'obs" where
  "load_observation_tensor from_json from_numpy fs example_dir load_depth =
     (case load_observation from_json fs example_dir load_depth of
        Inl e \<Rightarrow> Inl e
      | Inr (rgb, depth, camera_data) \<Rightarrow> from_numpy rgb depth (K camera_data))"

section \<open>Pose Estimator Facade\<close>

text \<open>
  Line 66 of \<^verbatim>\<open>Megapose.inference\<close>: the annotation list handed to the detection
  adapter is built from the one label and the one box of the call.
\<close>

definition inference_object_data :: "string \<Rightarrow> real list \<Rightarrow> ObjectData list" where
  "inference_object_data lbl bbox = [\<lparr>label = lbl, bbox_modal = Some bbox, TWO = None\<rparr>]"

text \<open>
  \<^verbatim>\<open>Megapose.inference\<close>. The camera record is \<^verbatim>\<open>self.camera_data\<close>;
  \<open>from_numpy\<close> (with the transfer to the device),
  \<open>make_detections\<close> (\<^verbatim>\<open>make_detections_from_object_data\<close>) and
  \<open>run_inference_pipeline\<close> (the estimator with the preset's parameters) are the
  opaque collaborators. The depth argument is an array or \<^verbatim>\<open>None\<close>.
\<close>

definition inference ::
  "CameraData
     \<Rightarrow> (8 word ndarray \<Rightarrow> real ndarray option \<Rightarrow> real list list option \<Rightarrow> error + 'obs)
     \<Rightarrow> (ObjectData list \<Rightarrow> error + 'det)
     \<Rightarrow> ('obs \<Rightarrow> 'det \<Rightarrow> error + ('out \<times> 'extra))
     \<Rightarrow> 8 word ndarray \<Rightarrow> real ndarray option \<Rightarrow> string \<Rightarrow> real list \<Rightarrow> error + 'out" where
  "inference camera_data from_numpy make_detections run_inference_pipeline rgb depth lbl bbox =
     (if \<not> shape_matches (shape rgb) (resolution camera_data) then Inl AssertionError
      else
     (case depth of
        None \<Rightarrow> Inl AttributeError
      | Some d \<Rightarrow>
          if \<not> shape_matches (shape d) (resolution camera_data) then Inl AssertionError
          else
     (case from_numpy rgb depth (K camera_data) of
        Inl e \<Rightarrow> Inl e
      | Inr observation \<Rightarrow>
     (case make_detections (inference_object_data lbl bbox) of
        Inl e \<Rightarrow> Inl e
      | Inr detections \<Rightarrow>
     (case run_inference_pipeline observation detections of
        Inl e \<Rightarrow> Inl e
      | Inr (output, extra) \<Rightarrow> Inr output)))))"

section \<open>Render Cache Loader\<close>

text \<open>\<^verbatim>\<open>os.listdir\<close> and \<^verbatim>\<open>os.path.isdir\<close> (\<open>is_dir\<close>).\<close>

definition listdir :: "filesystem \<Rightarrow> path \<Rightarrow> error + string list" where
  "listdir fs p = (case iterdir fs p of Inl e \<Rightarrow> Inl e | Inr qs \<Rightarrow> Inr (map name qs))"

text \<open>\<^verbatim>\<open>str(i)\<close> and \<^verbatim>\<open>"{:03d}".format(i)\<close> for a natural number.\<close>

fun str_nat :: "nat \<Rightarrow> string" where
  "str_nat n =
     (if n < 10 then [''0123456789'' ! n]
      else str_nat (n div 10) @ [''0123456789'' ! (n mod 10)])"

definition format_03d :: "nat \<Rightarrow> string" where
  "format_03d i = replicate (3 - length (str_nat i)) CHR ''0'' @ str_nat i"

definition to_tensor :: "image \<Rightarrow> real ndarray" where
  "to_tensor im =
     \<lparr>shape = [bands (mode im), height im, width im],
      item = (\<lambda>idx. case idx of
                [c, y, x] \<Rightarrow>
                  (if mode im = Mode_I16
                   then real_of_int (sint (word_of_nat (getpixel im x y c) :: 16 word))
                   else real (getpixel im x y c) / 255)
              | _ \<Rightarrow> 0)\<rparr>"

definition torch_cat :: "real ndarray \<Rightarrow> real ndarray \<Rightarrow> error + real ndarray" where
  "torch_cat a b =
     (if shape a = [] \<or> shape b = [] \<or> tl (shape a) \<noteq> tl (shape b) then Inl RuntimeError
      else Inr \<lparr>shape = (hd (shape a) + hd (shape b)) # tl (shape a),
                item = (\<lambda>idx. case idx of
                          [] \<Rightarrow> 0
                        | i # rest \<Rightarrow>
                            if i < hd (shape a) then item a idx
                            else item b ((i - hd (shape a)) # rest))\<rparr>)"

definition torch_stack :: "real ndarray list \<Rightarrow> error + real ndarray" where
  "torch_stack ts =
     (case ts of
        [] \<Rightarrow> Inl RuntimeError
      | t # rest \<Rightarrow>
          if \<not> list_all (\<lambda>u. shape u = shape t) rest then Inl RuntimeError
          else Inr \<lparr>shape = length ts # shape t,
                    item = (\<lambda>idx. case idx of
                              [] \<Rightarrow> 0
                            | i # rest' \<Rightarrow> if i < length ts then item (ts ! i) rest' else 0)\<rparr>)"

definition rgb_path :: "path \<Rightarrow> nat \<Rightarrow> path" where
  "rgb_path sub_folder_path i = sub_folder_path @ [''rgb_'' @ format_03d i @ ''.png'']"

definition normal_path :: "path \<Rightarrow> nat \<Rightarrow> path" where
  "normal_path sub_folder_path i = sub_folder_path @ [''normal_'' @ format_03d i @ ''.png'']"

definition combined_tensor :: "filesystem \<Rightarrow> path \<Rightarrow> nat \<Rightarrow> error + real ndarray" where
  "combined_tensor fs sub_folder_path i =
     (case Image_open fs (rgb_path sub_folder_path i) of
        Inl e \<Rightarrow> Inl e
      | Inr rgb_image \<Rightarrow>
     (case Image_open fs (normal_path sub_folder_path i) of
        Inl e \<Rightarrow> Inl e
      | Inr normal_image \<Rightarrow> torch_cat (to_tensor rgb_image) (to_tensor normal_image)))"

fun load_pairs ::
  "filesystem \<Rightarrow> path \<Rightarrow> nat list \<Rightarrow> real ndarray list \<Rightarrow> error + real ndarray list" where
  "load_pairs fs sub_folder_path [] images_list = Inr images_list"
| "load_pairs fs sub_folder_path (i # rest) images_list =
     (case combined_tensor fs sub_folder_path i of
        Inl e \<Rightarrow> Inl e
      | Inr t \<Rightarrow> load_pairs fs sub_folder_path rest (images_list @ [t]))"

definition num_files :: "filesystem \<Rightarrow> path \<Rightarrow> nat" where
  "num_files fs sub_folder_path =
     (let png_files = sort (rglob fs sub_folder_path ''.png'') in length png_files div 2)"

definition folder_tensor :: "filesystem \<Rightarrow> path \<Rightarrow> error + real ndarray" where
  "folder_tensor fs sub_folder_path =
     (case load_pairs fs sub_folder_path [0..<num_files fs sub_folder_path] [] of
        Inl e \<Rightarrow> Inl e
      | Inr images_list \<Rightarrow> torch_stack images_list)"

definition eight_bit :: "image \<Rightarrow> nat \<Rightarrow> nat \<Rightarrow> nat \<Rightarrow> bool" where
  "eight_bit im c h w =
     (mode im \<noteq> Mode_I16 \<and> bands (mode im) = c \<and> im_size im = (w, h) \<and> image_ok im)"

definition render_pair_ok :: "filesystem \<Rightarrow> path \<Rightarrow> nat \<Rightarrow> nat \<Rightarrow> nat \<Rightarrow> nat \<Rightarrow> bool" where
  "render_pair_ok fs sub_folder_path i c h w =
     (case (Image_open fs (rgb_path sub_folder_path i),
            Image_open fs (normal_path sub_folder_path i)) of
        (Inr rgb_image, Inr normal_image) \<Rightarrow>
          eight_bit rgb_image c h w \<and> eight_bit normal_image c h w
      | _ \<Rightarrow> False)"

fun load_folders ::
  "filesystem \<Rightarrow> path \<Rightarrow> string list \<Rightarrow> (string \<rightharpoonup> real ndarray)
     \<Rightarrow> error + (string \<rightharpoonup> real ndarray)" where
  "load_folders fs renders_path [] folder_tensors = Inr folder_tensors"
| "load_folders fs renders_path (sub_folder # rest) folder_tensors =
     (if is_dir fs (renders_path @ [sub_folder])
      then (case folder_tensor fs (renders_path @ [sub_folder]) of
              Inl e \<Rightarrow> Inl e
            | Inr t \<Rightarrow> load_folders fs renders_path rest (folder_tensors(sub_folder \<mapsto> t)))
      else load_folders fs renders_path rest folder_tensors)"

definition load_renders :: "filesystem \<Rightarrow> path \<Rightarrow> error + (string \<rightharpoonup> real ndarray)" where
  "load_renders fs renders_path =
     (case listdir fs renders_path of
        Inl e \<Rightarrow> Inl e
      | Inr sub_folders \<Rightarrow> load_folders fs renders_path sub_folders Map.empty)"

section \<open>Pose Persistence (reading) and Visualization Compositor\<close>

text \<open>
  \<^verbatim>\<open>Megapose.load_object_data\<close>; \<open>from_json\<close> stands for
  \<^verbatim>\<open>json.loads\<close> followed by \<^verbatim>\<open>ObjectData.from_json\<close> on every element.
\<close>

definition load_object_data ::
  "(string \<Rightarrow> error + ObjectData list) \<Rightarrow> filesystem \<Rightarrow> path \<Rightarrow> error + ObjectData list" where
  "load_object_data from_json fs data_path =
     (case read_text fs data_path of Inl e \<Rightarrow> Inl e | Inr txt \<Rightarrow> from_json txt)"

text \<open>
  Writing. A new entry needs its parent directory (the empty path is the working directory).
  \<^verbatim>\<open>Path.mkdir(exist_ok=True)\<close> accepts an existing directory;
  writing a file replaces an existing file.
\<close>

definition parent_exists :: "filesystem \<Rightarrow> path \<Rightarrow> bool" where
  "parent_exists fs p = (butlast p = [] \<or> is_dir fs (butlast p))"

definition mkdir_exist_ok :: "filesystem \<Rightarrow> path \<Rightarrow> error + filesystem" where
  "mkdir_exist_ok fs p =
     (case map_of fs p of
        Some Dir \<Rightarrow> Inr fs
      | Some (File c) \<Rightarrow> Inl FileExistsError
      | None \<Rightarrow>
          if parent_exists fs p then Inr (AList.update p Dir fs) else Inl FileNotFoundError)"

definition write_png :: "filesystem \<Rightarrow> path \<Rightarrow> image \<Rightarrow> error + filesystem" where
  "write_png fs p im =
     (case map_of fs p of
        Some Dir \<Rightarrow> Inl IsADirectoryError
      | _ \<Rightarrow>
          if parent_exists fs p then Inr (AList.update p (File (Png im)) fs)
          else Inl FileNotFoundError)"

text \<open>
  The collaborators of \<^verbatim>\<open>output_visualization\<close>, none of them part of the file:
  the two JSON decoders, the dataset constructor, the renderer (construction of
  \<^verbatim>\<open>Panda3dSceneRenderer\<close>, the conversion of the scene and
  \<^verbatim>\<open>render_scene(...)[0].rgb\<close>, lines 81 to 98), the plotting calls and
  \<^verbatim>\<open>export_png\<close>, which turns a figure into the PNG it writes.
\<close>

record ('ds, 'fig) backends =
  camera_json :: "string \<Rightarrow> error + CameraData"
  object_json :: "string \<Rightarrow> error + ObjectData list"
  dataset_of :: "RigidObject list \<Rightarrow> error + 'ds"
  render_rgb :: "'ds \<Rightarrow> CameraData \<Rightarrow> ObjectData list \<Rightarrow> error + 8 word ndarray"
  plot_image :: "8 word ndarray \<Rightarrow> error + 'fig"
  plot_overlay :: "8 word ndarray \<Rightarrow> 8 word ndarray \<Rightarrow> error + 'fig"
  make_contour_overlay :: "8 word ndarray \<Rightarrow> 8 word ndarray \<Rightarrow> error + 8 word ndarray"
  gridplot :: "'fig list \<Rightarrow> error + 'fig"
  export_png :: "'fig \<Rightarrow> error + image"

text \<open>\<^verbatim>\<open>export_png(fig, filename=...)\<close>.\<close>

definition export_png_to ::
  "('fig \<Rightarrow> error + image) \<Rightarrow> filesystem \<Rightarrow> 'fig \<Rightarrow> path \<Rightarrow> error + filesystem" where
  "export_png_to export fs fig filename =
     (case export fig of Inl e \<Rightarrow> Inl e | Inr im \<Rightarrow> write_png fs filename im)"

text \<open>
  Lines 109 to 113 of \<^verbatim>\<open>output_visualization\<close>: the only writes of the function.
  The result is the outcome and the file system left behind.
\<close>

definition export_visualizations ::
  "('fig \<Rightarrow> error + image) \<Rightarrow> filesystem \<Rightarrow> path \<Rightarrow> 'fig \<Rightarrow> 'fig \<Rightarrow> 'fig
     \<Rightarrow> (error + unit) \<times> filesystem" where
  "export_visualizations export fs example_dir fig_mesh_overlay fig_contour_overlay fig_all =
     (let vis_dir = example_dir @ [''visualizations'']
      in case mkdir_exist_ok fs vis_dir of
           Inl e \<Rightarrow> (Inl e, fs)
         | Inr fs1 \<Rightarrow>
        (case export_png_to export fs1 fig_mesh_overlay (vis_dir @ [''mesh_overlay.png'']) of
           Inl e \<Rightarrow> (Inl e, fs1)
         | Inr fs2 \<Rightarrow>
        (case export_png_to export fs2 fig_contour_overlay
                (vis_dir @ [''contour_overlay.png'']) of
           Inl e \<Rightarrow> (Inl e, fs2)
         | Inr fs3 \<Rightarrow>
        (case export_png_to export fs3 fig_all (vis_dir @ [''all_results.png'']) of
           Inl e \<Rightarrow> (Inl e, fs3)
         | Inr fs4 \<Rightarrow> (Inr (), fs4)))))"

text \<open>\<^verbatim>\<open>Megapose.output_visualization\<close>.\<close>

definition output_visualization ::
  "('ds, 'fig) backends \<Rightarrow> filesystem \<Rightarrow> path \<Rightarrow> (error + unit) \<times> filesystem" where
  "output_visualization B fs example_dir =
     (case load_observation (camera_json B) fs example_dir False of
        Inl e \<Rightarrow> (Inl e, fs)
      | Inr (rgb, unused, camera_data0) \<Rightarrow>
          let camera_data = camera_data0\<lparr>TWC := Some (eye 4)\<rparr> in
     (case load_object_data (object_json B) fs
             (example_dir @ [''outputs'', ''object_data.json'']) of
        Inl e \<Rightarrow> (Inl e, fs)
      | Inr object_datas \<Rightarrow>
     (case make_object_dataset (dataset_of B) fs example_dir of
        Inl e \<Rightarrow> (Inl e, fs)
      | Inr object_dataset \<Rightarrow>
     (case render_rgb B object_dataset camera_data object_datas of
        Inl e \<Rightarrow> (Inl e, fs)
      | Inr renderings_rgb \<Rightarrow>
     (case plot_image B rgb of
        Inl e \<Rightarrow> (Inl e, fs)
      | Inr fig_rgb \<Rightarrow>
     (case plot_overlay B rgb renderings_rgb of
        Inl e \<Rightarrow> (Inl e, fs)
      | Inr fig_mesh_overlay \<Rightarrow>
     (case make_contour_overlay B rgb renderings_rgb of
        Inl e \<Rightarrow> (Inl e, fs)
      | Inr contour_overlay \<Rightarrow>
     (case plot_image B contour_overlay of
        Inl e \<Rightarrow> (Inl e, fs)
      | Inr fig_contour_overlay \<Rightarrow>
     (case gridplot B [fig_rgb, fig_contour_overlay, fig_mesh_overlay] of
        Inl e \<Rightarrow> (Inl e, fs)
      | Inr fig_all \<Rightarrow>
          export_visualizations (export_png B) fs example_dir
            fig_mesh_overlay fig_contour_overlay fig_all)))))))))"

section \<open>Pose Persistence (writing)\<close>

text \<open>
  A parsed JSON document; the numbers of the documents here are reals.
\<close>

datatype 'n json =
    JNull
  | JNum 'n
  | JStr string
  | JArr "'n json list"
  | JObj "(string \<times> 'n json) list"

text \<open>
  Modelled from the spec: \<^verbatim>\<open>ObjectData.to_json\<close>, which is not part of the file,
  after the ObjectData JSON schema of the spec's external interfaces, an object with the
  members \<^verbatim>\<open>label\<close> (a string), \<^verbatim>\<open>bbox_modal\<close> (four numbers or null) and
  \<^verbatim>\<open>TWO\<close> (a 4x4 matrix, as rows of numbers, or null).
\<close>

definition json_numbers :: "real list \<Rightarrow> real json" where
  "json_numbers xs = JArr (map JNum xs)"

definition json_matrix :: "real list list \<Rightarrow> real json" where
  "json_matrix m = JArr (map json_numbers m)"

definition ObjectData_to_json :: "ObjectData \<Rightarrow> real json" where
  "ObjectData_to_json d =
     JObj [(''label'', JStr (label d)),
           (''bbox_modal'', case bbox_modal d of None \<Rightarrow> JNull | Some b \<Rightarrow> json_numbers b),
           (''TWO'', case TWO d of None \<Rightarrow> JNull | Some m \<Rightarrow> json_matrix m)]"

text \<open>
  Modelled from the spec: \<^verbatim>\<open>ObjectData.from_json\<close>, which is not part of the file,
  reading the same schema back into a typed record; a member that is absent counts as
  null, and anything else is a malformed sidecar (the spec's PersistenceError).
\<close>

fun parse_number :: "real json \<Rightarrow> real option" where
  "parse_number (JNum v) = Some v"
| "parse_number j = None"

fun parse_numbers :: "real json \<Rightarrow> real list option" where
  "parse_numbers (JArr xs) = those (map parse_number xs)"
| "parse_numbers j = None"

fun parse_matrix :: "real json \<Rightarrow> real list list option" where
  "parse_matrix (JArr rows) = those (map parse_numbers rows)"
| "parse_matrix j = None"

definition json_member :: "(string \<times> real json) list \<Rightarrow> string \<Rightarrow> real json" where
  "json_member kvs k = (case map_of kvs k of None \<Rightarrow> JNull | Some v \<Rightarrow> v)"

definition or_null :: "(real json \<Rightarrow> 'a option) \<Rightarrow> real json \<Rightarrow> 'a option option" where
  "or_null parse j = (case j of JNull \<Rightarrow> Some None | _ \<Rightarrow> map_option Some (parse j))"

definition ObjectData_from_json :: "real json \<Rightarrow> error + ObjectData" where
  "ObjectData_from_json j =
     (case j of
        JObj kvs \<Rightarrow>
          (case (json_member kvs ''label'',
                 or_null parse_numbers (json_member kvs ''bbox_modal''),
                 or_null parse_matrix (json_member kvs ''TWO'')) of
             (JStr s, Some b, Some m) \<Rightarrow> Inr \<lparr>label = s, bbox_modal = b, TWO = m\<rparr>
           | _ \<Rightarrow> Inl (External ''PersistenceError''))
      | _ \<Rightarrow> Inl (External ''PersistenceError''))"

text \<open>
  Lines 140 and 141 of \<^verbatim>\<open>load_object_data\<close> after the read: \<open>loads\<close> is
  \<^verbatim>\<open>json.loads\<close>, a parameter, and every element of the array it returns goes
  through \<^verbatim>\<open>ObjectData.from_json\<close>.
\<close>

fun from_json_each :: "real json list \<Rightarrow> error + ObjectData list" where
  "from_json_each [] = Inr []"
| "from_json_each (d # ds) =
     (case ObjectData_from_json d of
        Inl e \<Rightarrow> Inl e
      | Inr x \<Rightarrow> (case from_json_each ds of Inl e \<Rightarrow> Inl e | Inr xs \<Rightarrow> Inr (x # xs)))"

definition decode_object_data ::
  "(string \<Rightarrow> error + real json) \<Rightarrow> string \<Rightarrow> error + ObjectData list" where
  "decode_object_data loads txt =
     (case loads txt of
        Inl e \<Rightarrow> Inl e
      | Inr (JArr ds) \<Rightarrow> from_json_each ds
      | Inr other \<Rightarrow> Inl (External ''PersistenceError''))"

text \<open>
  The pose estimates: the labels of \<^verbatim>\<open>pose_estimates.infos["label"]\<close> and the
  matrices of \<^verbatim>\<open>pose_estimates.poses\<close>, one per detected object.
\<close>

record PoseEstimates =
  infos_label :: "string list"
  poses :: "Transform list"

text \<open>
  Modelled from the spec: the constructor \<^verbatim>\<open>Transform(pose)\<close>, which is not part
  of the file; in the spec's data model the pose of an ObjectData record is the 4x4
  matrix itself.
\<close>

definition Transform :: "real list list \<Rightarrow> Transform" where
  "Transform pose = pose"

text \<open>
  Lines 184 to 188 of \<^verbatim>\<open>save_predictions\<close>: one record per pair of
  \<^verbatim>\<open>zip(labels, poses)\<close>, which stops at the shorter list.
\<close>

definition pose_object_data :: "PoseEstimates \<Rightarrow> ObjectData list" where
  "pose_object_data pose_estimates =
     map (\<lambda>(lbl, pose). \<lparr>label = lbl, bbox_modal = None, TWO = Some (Transform pose)\<rparr>)
       (zip (infos_label pose_estimates) (poses pose_estimates))"

text \<open>\<^verbatim>\<open>Path.write_text\<close>.\<close>

definition write_text :: "filesystem \<Rightarrow> path \<Rightarrow> string \<Rightarrow> error + filesystem" where
  "write_text fs p s =
     (case map_of fs p of
        Some Dir \<Rightarrow> Inl IsADirectoryError
      | _ \<Rightarrow>
          if parent_exists fs p then Inr (AList.update p (File (Text s)) fs)
          else Inl FileNotFoundError)"

text \<open>
  \<^verbatim>\<open>Megapose.save_predictions\<close>; \<open>dumps\<close> is \<^verbatim>\<open>json.dumps\<close>, a parameter.
  The result is the outcome and the file system left behind.
\<close>

definition save_predictions ::
  "(real json \<Rightarrow> string) \<Rightarrow> filesystem \<Rightarrow> path \<Rightarrow> PoseEstimates
     \<Rightarrow> (error + unit) \<times> filesystem" where
  "save_predictions dumps fs example_dir pose_estimates =
     (let object_data = pose_object_data pose_estimates;
          object_data_json = dumps (JArr (map ObjectData_to_json object_data));
          output_fn = example_dir @ [''object_data.json'']
      in case mkdir_exist_ok fs (butlast output_fn) of
           Inl e \<Rightarrow> (Inl e, fs)
         | Inr fs1 \<Rightarrow>
        (case write_text fs1 output_fn object_data_json of
           Inl e \<Rightarrow> (Inl e, fs1)
         | Inr fs2 \<Rightarrow> (Inr (), fs2)))"

text \<open>Two matrices agree entry by entry within a tolerance.\<close>

definition matrix_close :: "real \<Rightarrow> Transform \<Rightarrow> Transform \<Rightarrow> bool" where
  "matrix_close eps a b = list_all2 (list_all2 (\<lambda>x y. \<bar>x - y\<bar> \<le> eps)) a b"

section \<open>Concrete inputs\<close>

definition cam0 :: CameraData where
  "cam0 = \<lparr>K = Some [[1066, 0, 312], [0, 1067, 241], [0, 0, 1]],
           resolution = Some (480, 640), TWC = None\<rparr>"

definition rgb0 :: "8 word ndarray" where
  "rgb0 = \<lparr>shape = [480, 640, 3], item = (\<lambda>idx. 0)\<rparr>"

definition depth0 :: "real ndarray" where
  "depth0 = \<lparr>shape = [480, 640], item = (\<lambda>idx. 1)\<rparr>"

definition bbox0 :: "real list" where
  "bbox0 = [100, 120, 300, 340]"

text \<open>Stand-ins for the collaborators: an estimator that answers one pose per detection.\<close>

definition from_numpy0 ::
  "8 word ndarray \<Rightarrow> real ndarray option \<Rightarrow> real list list option \<Rightarrow> error + unit" where
  "from_numpy0 rgb depth k = Inr ()"

definition make_detections0 :: "ObjectData list \<Rightarrow> error + ObjectData list" where
  "make_detections0 ods = Inr ods"

definition pipeline0 ::
  "unit \<Rightarrow> ObjectData list \<Rightarrow> error + ((string \<times> Transform) list \<times> unit)" where
  "pipeline0 obs dets = Inr (map (\<lambda>d. (label d, eye 4)) dets, ())"

text \<open>An example directory: a 3 x 2 colour image, a 16-bit depth image, a camera file.\<close>

definition cam1 :: CameraData where
  "cam1 = \<lparr>K = Some [[1066, 0, 1], [0, 1067, 1], [0, 0, 1]],
           resolution = Some (2, 3), TWC = None\<rparr>"

definition camera_from_json0 :: "string \<Rightarrow> error + CameraData" where
  "camera_from_json0 txt = (if txt = ''cam_2x3'' then Inr cam1 else Inl (External ''json''))"

definition img_rgb1 :: image where
  "img_rgb1 = \<lparr>mode = Mode_RGB, im_size = (3, 2), getpixel = (\<lambda>x y b. 10 * x + y + b)\<rparr>"

definition img_depth1 :: image where
  "img_depth1 = \<lparr>mode = Mode_I16, im_size = (3, 2), getpixel = (\<lambda>x y b. 20000 + x)\<rparr>"

definition img_wide :: image where
  "img_wide = \<lparr>mode = Mode_RGB, im_size = (4, 2), getpixel = (\<lambda>x y b. 0)\<rparr>"

definition fs_example :: filesystem where
  "fs_example =
     [([''ex''], Dir),
      ([''ex'', ''ycbv_camera_data.json''], File (Text ''cam_2x3'')),
      ([''ex'', ''image_rgb.png''], File (Png img_rgb1)),
      ([''ex'', ''image_depth.png''], File (Png img_depth1))]"

definition fs_wide_rgb :: filesystem where
  "fs_wide_rgb =
     [([''ex''], Dir),
      ([''ex'', ''ycbv_camera_data.json''], File (Text ''cam_2x3'')),
      ([''ex'', ''image_rgb.png''], File (Png img_wide)),
      ([''ex'', ''image_depth.png''], File (Png img_depth1))]"

definition fs_wide_depth :: filesystem where
  "fs_wide_depth =
     [([''ex''], Dir),
      ([''ex'', ''ycbv_camera_data.json''], File (Text ''cam_2x3'')),
      ([''ex'', ''image_rgb.png''], File (Png img_rgb1)),
      ([''ex'', ''image_depth.png''], File (Png img_wide))]"

text \<open>A YCB model directory and two generic catalogs.\<close>

definition fs_ycb :: filesystem where
  "fs_ycb =
     [([''models''], Dir),
      ([''models'', ''obj_000002.ply''], File Blob),
      ([''models'', ''models_info.json''], File (Text ''info'')),
      ([''models'', ''obj_000001.ply''], File Blob),
      ([''models'', ''extra''], Dir),
      ([''models'', ''extra'', ''a.ply''], File Blob)]"

definition ycb_canonical :: "nat \<Rightarrow> string" where
  "ycb_canonical n =
     (if n = 1 then ''002_master_chef_can''
      else if n = 2 then ''003_cracker_box'' else ''004_sugar_box'')"

definition convert_number0 :: "nat \<Rightarrow> error + string" where
  "convert_number0 n =
     (if 1 \<le> n \<and> n \<le> 3 then Inr (ycb_canonical n) else Inl (External ''KeyError''))"

definition dataset0 :: "RigidObject list \<Rightarrow> error + RigidObject list" where
  "dataset0 objs = Inr objs"

definition fs_catalog :: filesystem where
  "fs_catalog =
     [([''cad''], Dir),
      ([''cad'', ''mug''], Dir),
      ([''cad'', ''mug'', ''mug.obj''], File Blob),
      ([''cad'', ''mug'', ''texture.png''], File Blob),
      ([''cad'', ''drill''], Dir),
      ([''cad'', ''drill'', ''drill.ply''], File Blob)]"

definition fs_two_meshes :: filesystem where
  "fs_two_meshes =
     [([''cad''], Dir),
      ([''cad'', ''mug''], Dir),
      ([''cad'', ''mug'', ''mug.obj''], File Blob),
      ([''cad'', ''mug'', ''mug.ply''], File Blob)]"

text \<open>Render caches: one with an unmatched third PNG, a matched one, one with a missing normal.\<close>

definition img_view :: "nat \<Rightarrow> image" where
  "img_view k = \<lparr>mode = Mode_RGB, im_size = (3, 2), getpixel = (\<lambda>x y b. 51 * k + 10 * x + y + b)\<rparr>"

definition fs_odd :: filesystem where
  "fs_odd =
     [([''renders''], Dir),
      ([''renders'', ''readme.txt''], File (Text ''views'')),
      ([''renders'', ''obj_000001''], Dir),
      ([''renders'', ''obj_000001'', ''rgb_000.png''], File (Png (img_view 0))),
      ([''renders'', ''obj_000001'', ''normal_000.png''], File (Png (img_view 1))),
      ([''renders'', ''obj_000001'', ''rgb_001.png''], File (Png (img_view 2)))]"

definition fs_cache :: filesystem where
  "fs_cache =
     [([''renders''], Dir),
      ([''renders'', ''readme.txt''], File (Text ''views'')),
      ([''renders'', ''obj_000001''], Dir),
      ([''renders'', ''obj_000001'', ''rgb_000.png''], File (Png (img_view 0))),
      ([''renders'', ''obj_000001'', ''normal_000.png''], File (Png (img_view 1))),
      ([''renders'', ''obj_000001'', ''rgb_001.png''], File (Png (img_view 2))),
      ([''renders'', ''obj_000001'', ''normal_001.png''], File (Png (img_view 3)))]"

definition fs_missing :: filesystem where
  "fs_missing =
     [([''renders''], Dir),
      ([''renders'', ''obj_000001''], Dir),
      ([''renders'', ''obj_000001'', ''rgb_000.png''], File (Png (img_view 0))),
      ([''renders'', ''obj_000001'', ''normal_000.png''], File (Png (img_view 1))),
      ([''renders'', ''obj_000001'', ''rgb_001.png''], File (Png (img_view 2))),
      ([''renders'', ''obj_000001'', ''mask_001.png''], File (Png (img_view 3)))]"

text \<open>
  A scene for the compositor: one persisted pose, one catalog mesh, and collaborators that
  all succeed; figures are kept symbolic.
\<close>

datatype fig =
    Fig_image "8 word ndarray"
  | Fig_overlay "8 word ndarray" "8 word ndarray"
  | Fig_grid "fig list"

definition render0 :: "8 word ndarray" where
  "render0 = \<lparr>shape = [2, 3, 3], item = (\<lambda>idx. 255)\<rparr>"

definition backends0 :: "(RigidObject list, fig) backends" where
  "backends0 =
     \<lparr>camera_json = camera_from_json0,
      object_json = (\<lambda>txt. if txt = ''poses''
         then Inr [\<lparr>label = ''obj_000001'', bbox_modal = None, TWO = Some (eye 4)\<rparr>]
         else Inl (External ''json'')),
      dataset_of = dataset0,
      render_rgb = (\<lambda>ds cam ods. Inr render0),
      plot_image = (\<lambda>a. Inr (Fig_image a)),
      plot_overlay = (\<lambda>a b. Inr (Fig_overlay a b)),
      make_contour_overlay = (\<lambda>a b. Inr b),
      gridplot = (\<lambda>figs. Inr (Fig_grid figs)),
      export_png = (\<lambda>f. case f of Fig_grid figs \<Rightarrow> Inr img_wide | _ \<Rightarrow> Inr img_rgb1)\<rparr>"

definition fs_scene :: filesystem where
  "fs_scene =
     [([''ex''], Dir),
      ([''ex'', ''ycbv_camera_data.json''], File (Text ''cam_2x3'')),
      ([''ex'', ''image_rgb.png''], File (Png img_rgb1)),
      ([''ex'', ''outputs''], Dir),
      ([''ex'', ''outputs'', ''object_data.json''], File (Text ''poses'')),
      ([''ex'', ''obj_000001''], Dir),
      ([''ex'', ''obj_000001'', ''obj_000001.ply''], File Blob)]"

text \<open>
  One pose estimate to save, and stand-ins for \<^verbatim>\<open>json.dumps\<close> and
  \<^verbatim>\<open>json.loads\<close> on its document: the text read back holds every number
  rounded to six decimals.
\<close>

definition T1 :: Transform where
  "T1 = [[1, 0, 0, 1234567 / 10000000], [0, 1, 0, 1 / 4], [0, 0, 1, 3 / 2], [0, 0, 0, 1]]"

definition estimates1 :: PoseEstimates where
  "estimates1 = \<lparr>infos_label = [''obj_000002''], poses = [T1]\<rparr>"

definition stored0 :: "real \<Rightarrow> real" where
  "stored0 v = real_of_int (round (v * 1000000)) / 1000000"

definition dumps0 :: "real json \<Rightarrow> string" where
  "dumps0 doc = ''[{label: obj_000002, TWO: ...}]''"

definition loads0 :: "string \<Rightarrow> error + real json" where
  "loads0 txt =
     (if txt = ''[{label: obj_000002, TWO: ...}]''
      then Inr (map_json stored0 (JArr (map ObjectData_to_json (pose_object_data estimates1))))
      else Inl (External ''JSONDecodeError''))"

section \<open>Properties\<close>

lemma shape_matches_None [simp]: "\<not> shape_matches s None"
  by (simp add: shape_matches_def)

lemma shape_matches_Some [simp]: "shape_matches s (Some (h, w)) \<longleftrightarrow> take 2 s = [h, w]"
  by (simp add: shape_matches_def)

text \<open>
  C10. A call of \<^verbatim>\<open>Megapose.inference\<close> with \<^verbatim>\<open>depth = None\<close> raises before
  the observation is built: the outcome is \<^verbatim>\<open>AttributeError\<close> from
  \<^verbatim>\<open>depth.shape\<close> on line 63 (or \<^verbatim>\<open>AssertionError\<close> from line 62 when the
  RGB shape is already wrong), whatever the collaborators would do. Hence every call that
  returns had a depth array whose first two dimensions are the camera resolution.
\<close>

theorem inference_without_depth_raises:
  "inference cam from_numpy make_detections pipeline rgb None lbl bbox =
     (if shape_matches (shape rgb) (resolution cam) then Inl AttributeError
      else Inl AssertionError)
   \<and> (inference cam from_numpy make_detections pipeline rgb depth lbl bbox = Inr out \<longrightarrow>
        (\<exists>d. depth = Some d \<and> shape_matches (shape d) (resolution cam)))"
  by (auto simp: inference_def split: option.splits sum.splits if_splits)

theorem inference_without_depth_raises_witness:
  "inference cam0 from_numpy0 make_detections0 pipeline0 rgb0 None ''obj_000001'' bbox0
     = Inl AttributeError
   \<and> inference cam0 from_numpy0 make_detections0 pipeline0 rgb0 (Some depth0) ''obj_000001'' bbox0
     = Inr [(''obj_000001'', eye 4)]
   \<and> (\<exists>d. Some depth0 = Some d \<and> shape_matches (shape d) (resolution cam0))"
proof -
  have run: "inference cam0 from_numpy0 make_detections0 pipeline0 rgb0 (Some depth0)
      ''obj_000001'' bbox0 = Inr [(''obj_000001'', eye 4)]"
    by (simp add: inference_def cam0_def rgb0_def depth0_def from_numpy0_def
        make_detections0_def pipeline0_def inference_object_data_def shape_matches_Some)
  have none: "inference cam0 from_numpy0 make_detections0 pipeline0 rgb0 None
      ''obj_000001'' bbox0 = Inl AttributeError"
    using inference_without_depth_raises
      [of cam0 from_numpy0 make_detections0 pipeline0 rgb0 "''obj_000001''" bbox0]
    by (simp add: cam0_def rgb0_def shape_matches_Some)
  from inference_without_depth_raises
    [of cam0 from_numpy0 make_detections0 pipeline0 rgb0 "''obj_000001''" bbox0
      "Some depth0" "[(''obj_000001'', eye 4)]"] run
  have "\<exists>d. Some depth0 = Some d \<and> shape_matches (shape d) (resolution cam0)"
    by blast
  with run none show ?thesis by blast
qed

lemma take2_array_shape: "take 2 (array_shape im) = [height im, width im]"
  by (simp add: array_shape_def)

lemma shape_matches_array_shape:
  "shape_matches (array_shape im) r \<longleftrightarrow> r = Some (height im, width im)"
  by (cases r) (auto simp: take2_array_shape)

text \<open>
  C2. When the camera file and the RGB image load and the resolution (H, W) of the RGB
  image, or of the depth image when depth is requested, is not the resolution of the camera
  record, \<^verbatim>\<open>load_observation\<close> fails on its assertion (the spec's
  ResolutionMismatchError) and so does \<^verbatim>\<open>load_observation_tensor\<close>, whatever
  the tensor constructor is: no observation is produced, nothing is cropped or resized.
\<close>

theorem load_observation_resolution_mismatch:
  assumes "read_text fs (example_dir @ [''ycbv_camera_data.json'']) = Inr txt"
    and "from_json txt = Inr camera_data"
    and "Image_open fs (example_dir @ [''image_rgb.png'']) = Inr im"
    and "resolution camera_data \<noteq> Some (height im, width im)
         \<or> (load_depth \<and> (\<exists>depth_im.
               Image_open fs (example_dir @ [''image_depth.png'']) = Inr depth_im
               \<and> resolution camera_data \<noteq> Some (height depth_im, width depth_im)))"
  shows "load_observation from_json fs example_dir load_depth = Inl AssertionError
         \<and> load_observation_tensor from_json from_numpy fs example_dir load_depth
             = Inl AssertionError"
proof -
  have "load_observation from_json fs example_dir load_depth = Inl AssertionError"
    using assms
    by (auto simp: load_observation_def np_array_uint8_def np_array_float32_def
        array_div_def shape_matches_array_shape Let_def simp del: shape_matches_Some)
  then show ?thesis
    by (simp add: load_observation_tensor_def)
qed

lemma fs_example_reads:
  "read_text fs_example [''ex'', ''ycbv_camera_data.json''] = Inr ''cam_2x3''"
  "Image_open fs_example [''ex'', ''image_rgb.png''] = Inr img_rgb1"
  "Image_open fs_example [''ex'', ''image_depth.png''] = Inr img_depth1"
  by (simp_all add: fs_example_def read_text_def Image_open_def)

lemma fs_wide_rgb_reads:
  "read_text fs_wide_rgb [''ex'', ''ycbv_camera_data.json''] = Inr ''cam_2x3''"
  "Image_open fs_wide_rgb [''ex'', ''image_rgb.png''] = Inr img_wide"
  by (simp_all add: fs_wide_rgb_def read_text_def Image_open_def)

lemma fs_wide_depth_reads:
  "read_text fs_wide_depth [''ex'', ''ycbv_camera_data.json''] = Inr ''cam_2x3''"
  "Image_open fs_wide_depth [''ex'', ''image_rgb.png''] = Inr img_rgb1"
  "Image_open fs_wide_depth [''ex'', ''image_depth.png''] = Inr img_wide"
  by (simp_all add: fs_wide_depth_def read_text_def Image_open_def)

lemma camera_from_json0_cam1: "camera_from_json0 ''cam_2x3'' = Inr cam1"
  by (simp add: camera_from_json0_def)

theorem load_observation_resolution_mismatch_witness:
  "load_observation camera_from_json0 fs_wide_rgb [''ex''] False = Inl AssertionError
   \<and> load_observation_tensor camera_from_json0 from_numpy0 fs_wide_rgb [''ex''] False
       = Inl AssertionError
   \<and> load_observation camera_from_json0 fs_wide_depth [''ex''] True = Inl AssertionError
   \<and> load_observation_tensor camera_from_json0 from_numpy0 fs_wide_depth [''ex''] True
       = Inl AssertionError"
proof -
  have rgb: "resolution cam1 \<noteq> Some (height img_wide, width img_wide)
      \<or> (False \<and> (\<exists>depth_im.
               Image_open fs_wide_rgb ([''ex''] @ [''image_depth.png'']) = Inr depth_im
               \<and> resolution cam1 \<noteq> Some (height depth_im, width depth_im)))"
    by (simp add: cam1_def img_wide_def height_def width_def)
  have depth: "resolution cam1 \<noteq> Some (height img_rgb1, width img_rgb1)
      \<or> (True \<and> (\<exists>depth_im.
               Image_open fs_wide_depth ([''ex''] @ [''image_depth.png'']) = Inr depth_im
               \<and> resolution cam1 \<noteq> Some (height depth_im, width depth_im)))"
    by (simp add: fs_wide_depth_reads cam1_def img_wide_def height_def width_def)
  from load_observation_resolution_mismatch
    [of fs_wide_rgb "[''ex'']" "''cam_2x3''" camera_from_json0 cam1 img_wide False from_numpy0,
      OF _ camera_from_json0_cam1 _ rgb]
  have a: "load_observation camera_from_json0 fs_wide_rgb [''ex''] False = Inl AssertionError
      \<and> load_observation_tensor camera_from_json0 from_numpy0 fs_wide_rgb [''ex''] False
          = Inl AssertionError"
    by (simp add: fs_wide_rgb_reads)
  from load_observation_resolution_mismatch
    [of fs_wide_depth "[''ex'']" "''cam_2x3''" camera_from_json0 cam1 img_rgb1 True from_numpy0,
      OF _ camera_from_json0_cam1 _ depth]
  have b: "load_observation camera_from_json0 fs_wide_depth [''ex''] True = Inl AssertionError
      \<and> load_observation_tensor camera_from_json0 from_numpy0 fs_wide_depth [''ex''] True
          = Inl AssertionError"
    by (simp add: fs_wide_depth_reads)
  from a b show ?thesis by blast
qed

text \<open>
  C7. Without a depth request the depth channel returned by
  \<^verbatim>\<open>load_observation\<close> is \<^verbatim>\<open>None\<close>. With one, it is the array of the
  stored depth image, every stored value divided by 10000 (over the reals: the rounding
  of \<^verbatim>\<open>float32\<close> is not modelled).
\<close>

theorem load_observation_depth_channel:
  "(load_observation from_json fs example_dir False = Inr (rgb, depth, camera_data)
      \<longrightarrow> depth = None)
   \<and> (load_observation from_json fs example_dir True = Inr (rgb, depth, camera_data)
      \<longrightarrow> (\<exists>depth_im d.
             Image_open fs (example_dir @ [''image_depth.png'']) = Inr depth_im
             \<and> depth = Some d
             \<and> shape d = array_shape depth_im
             \<and> (\<forall>idx. item d idx = real (sample depth_im idx) / 10000)))"
  by (auto simp: load_observation_def np_array_float32_def array_div_def Let_def
      split: sum.splits if_splits)

theorem load_observation_depth_channel_witness:
  "load_observation camera_from_json0 fs_example [''ex''] False
     = Inr (np_array_uint8 img_rgb1, None, cam1)
   \<and> (\<exists>d. load_observation camera_from_json0 fs_example [''ex''] True
            = Inr (np_array_uint8 img_rgb1, Some d, cam1)
          \<and> shape d = [2, 3]
          \<and> item d [0, 0] = 2
          \<and> item d [1, 2] = 20002 / 10000)"
proof -
  have off: "load_observation camera_from_json0 fs_example [''ex''] False
      = Inr (np_array_uint8 img_rgb1, None, cam1)"
    by (simp add: load_observation_def fs_example_reads camera_from_json0_cam1
        np_array_uint8_def array_shape_def cam1_def img_rgb1_def height_def width_def)
  have on: "load_observation camera_from_json0 fs_example [''ex''] True
      = Inr (np_array_uint8 img_rgb1, Some (array_div (np_array_float32 img_depth1) 10000), cam1)"
    by (simp add: load_observation_def fs_example_reads camera_from_json0_cam1
        np_array_uint8_def np_array_float32_def array_div_def array_shape_def cam1_def
        img_rgb1_def img_depth1_def height_def width_def)
  from load_observation_depth_channel
    [of camera_from_json0 fs_example "[''ex'']" "np_array_uint8 img_rgb1"
      "Some (array_div (np_array_float32 img_depth1) 10000)" cam1] on
  obtain depth_im d where
    d: "Image_open fs_example ([''ex''] @ [''image_depth.png'']) = Inr depth_im"
      "Some (array_div (np_array_float32 img_depth1) 10000) = Some d"
      "shape d = array_shape depth_im"
      "\<forall>idx. item d idx = real (sample depth_im idx) / 10000"
    by blast
  from d(1) have im: "depth_im = img_depth1"
    by (simp add: fs_example_reads)
  have "shape d = [2, 3]"
    using d(3) by (simp add: im array_shape_def img_depth1_def height_def width_def)
  moreover have "item d [0, 0] = 2"
    using d(4) [rule_format, of "[0, 0]"] by (simp add: im img_depth1_def)
  moreover have "item d [1, 2] = 20002 / 10000"
    using d(4) [rule_format, of "[1, 2]"] by (simp add: im img_depth1_def)
  ultimately show ?thesis
    using off on d(2) by auto
qed

lemma find_mesh_Some: "find_mesh fns (Some m) = (if filter is_mesh fns = [] then Inr (Some m) else Inl AssertionError)"
  by (induction fns) auto

lemma find_mesh_None: "find_mesh fns None = (case filter is_mesh fns of [] \<Rightarrow> Inr None | [m] \<Rightarrow> Inr (Some m) | _ \<Rightarrow> Inl AssertionError)"
  by (induction fns) (auto simp: find_mesh_Some split: list.splits)

lemma find_mesh_one:
  "length (mesh_candidates fs d) = 1 \<Longrightarrow>
     find_mesh (glob_star fs d) None = Inr (Some (hd (mesh_candidates fs d)))"
  by (auto simp: find_mesh_None mesh_candidates_def split: list.splits)

lemma find_mesh_not_one:
  "length (mesh_candidates fs d) \<noteq> 1 \<Longrightarrow>
     find_mesh (glob_star fs d) None = Inr None \<or> find_mesh (glob_star fs d) None = Inl AssertionError"
  by (auto simp: find_mesh_None mesh_candidates_def split: list.splits)

lemma object_dirs_loop_ok:
  "\<forall>d \<in> set dirs. length (mesh_candidates fs d) = 1 \<Longrightarrow>
     object_dirs_loop fs dirs acc =
       Inr (acc @ map (\<lambda>d. \<lparr>rigid_label = name d, mesh_path = hd (mesh_candidates fs d),
                            mesh_units = ''m''\<rparr>) dirs)"
  by (induction dirs arbitrary: acc) (simp_all add: find_mesh_one)

lemma object_dirs_loop_fail:
  "\<exists>d \<in> set dirs. length (mesh_candidates fs d) \<noteq> 1 \<Longrightarrow>
     object_dirs_loop fs dirs acc = Inl AssertionError"
proof (induction dirs arbitrary: acc)
  case Nil
  then show ?case by simp
next
  case (Cons d dirs)
  show ?case
  proof (cases "length (mesh_candidates fs d) = 1")
    case True
    with Cons.prems have "\<exists>d \<in> set dirs. length (mesh_candidates fs d) \<noteq> 1" by auto
    with Cons.IH True show ?thesis by (simp add: find_mesh_one)
  next
    case False
    from find_mesh_not_one [OF False] show ?thesis by auto
  qed
qed

lemma ycb_loop_enumerate:
  "\<forall>i. n \<le> i \<and> i < n + length xs \<longrightarrow> conv (i + 1) = Inr (canonical (i + 1)) \<Longrightarrow>
   ycb_loop conv (enumerate n xs) acc =
     Inr (acc @ map (\<lambda>(i, p). \<lparr>rigid_label = canonical (i + 1), mesh_path = p,
                                 mesh_units = ''mm''\<rparr>) (enumerate n xs))"
proof (induction xs arbitrary: n acc)
  case Nil
  then show ?case by simp
next
  case (Cons x xs)
  from Cons.prems have here: "conv (n + 1) = Inr (canonical (n + 1))" by simp
  from Cons.prems
  have rest: "\<forall>i. Suc n \<le> i \<and> i < Suc n + length xs \<longrightarrow> conv (i + 1) = Inr (canonical (i + 1))"
    by simp
  show ?case
    using here Cons.IH [OF rest] by simp
qed

lemma children_names_distinct:
  assumes "distinct (map fst fs)"
  shows "distinct (map name (children fs p))"
proof -
  have inj: "inj_on name (set (children fs p))"
  proof (rule inj_onI)
    fix q r
    assume "q \<in> set (children fs p)" "r \<in> set (children fs p)" "name q = name r"
    then have "q \<noteq> []" "r \<noteq> []" "butlast q = butlast r" "last q = last r"
      by (auto simp: children_def name_def)
    then show "q = r"
      by (metis append_butlast_last_id)
  qed
  have "distinct (children fs p)"
    using assms by (simp add: children_def distinct_map_filter)
  with inj show ?thesis
    by (simp add: distinct_map)
qed

lemma mesh_candidate_props:
  assumes "length (mesh_candidates fs d) = 1"
  shows "map_of fs (hd (mesh_candidates fs d)) \<noteq> None
         \<and> is_mesh (hd (mesh_candidates fs d))
         \<and> butlast (hd (mesh_candidates fs d)) = d"
proof -
  from assms obtain m where m: "mesh_candidates fs d = [m]"
    by (cases "mesh_candidates fs d") auto
  then have "m \<in> set (mesh_candidates fs d)" by simp
  then have "m \<in> set (map fst fs)" "is_mesh m" "butlast m = d"
    by (auto simp: mesh_candidates_def glob_star_def children_def split: if_splits)
  then show ?thesis
    by (simp add: m map_of_eq_None_iff)
qed


lemma children_of_iterdir: "iterdir fs p = Inr ds \<Longrightarrow> ds = children fs p"
  by (auto simp: iterdir_def split: option.splits entry.splits)

text \<open>
  C5. In YCB mode the \<^verbatim>\<open>.ply\<close> files found recursively are sorted by path,
  and when the lookup answers for the positions 1 to n, the Nth entry of the dataset (counted
  from 1) has the Nth canonical name, the Nth sorted file and the unit \<^verbatim>\<open>mm\<close>.
  In generic mode, when every entry of the root has exactly one mesh, the labels are the
  names of the entries of the root, in order, and every unit is \<^verbatim>\<open>m\<close>.
\<close>

theorem catalog_labels_and_units:
  "((\<forall>N. 1 \<le> N \<and> N \<le> length (rglob fs ycb_dir ''.ply'')
          \<longrightarrow> convert_number N = Inr (canonical N))
     \<longrightarrow> (\<exists>objs. make_ycb_object_dataset convert_number RigidObjectDataset fs ycb_dir
                    = RigidObjectDataset objs
               \<and> length objs = length (rglob fs ycb_dir ''.ply'')
               \<and> sorted (sort (rglob fs ycb_dir ''.ply''))
               \<and> (\<forall>N. 1 \<le> N \<and> N \<le> length objs \<longrightarrow>
                     objs ! (N - 1) =
                       \<lparr>rigid_label = canonical N,
                          mesh_path = sort (rglob fs ycb_dir ''.ply'') ! (N - 1),
                          mesh_units = ''mm''\<rparr>)))
   \<and> (iterdir gfs cad_model_dir = Inr object_dirs
        \<and> (\<forall>d \<in> set object_dirs. length (mesh_candidates gfs d) = 1)
     \<longrightarrow> (\<exists>objs. make_object_dataset RigidObjectDataset gfs cad_model_dir
                    = RigidObjectDataset objs
               \<and> map rigid_label objs = map name object_dirs
               \<and> (\<forall>obj \<in> set objs. mesh_units obj = ''m'')))"
proof (intro conjI impI)
  let ?plys = "sort (rglob fs ycb_dir ''.ply'')"
  let ?objs = "map (\<lambda>(i, p). \<lparr>rigid_label = canonical (i + 1), mesh_path = p,
                               mesh_units = ''mm''\<rparr>) (enumerate 0 ?plys)"
  assume conv: "\<forall>N. 1 \<le> N \<and> N \<le> length (rglob fs ycb_dir ''.ply'')
      \<longrightarrow> convert_number N = Inr (canonical N)"
  then have "\<forall>i. 0 \<le> i \<and> i < 0 + length ?plys
      \<longrightarrow> convert_number (i + 1) = Inr (canonical (i + 1))"
    by simp
  from ycb_loop_enumerate [OF this, of "[]"]
  have run: "make_ycb_object_dataset convert_number RigidObjectDataset fs ycb_dir
      = RigidObjectDataset ?objs"
    by (simp add: make_ycb_object_dataset_def)
  have len: "length ?objs = length (rglob fs ycb_dir ''.ply'')"
    by simp
  have nth: "\<forall>N. 1 \<le> N \<and> N \<le> length ?objs \<longrightarrow>
      ?objs ! (N - 1) = \<lparr>rigid_label = canonical N, mesh_path = ?plys ! (N - 1),
                           mesh_units = ''mm''\<rparr>"
    by (auto simp: nth_enumerate_eq)
  show "\<exists>objs. make_ycb_object_dataset convert_number RigidObjectDataset fs ycb_dir
                    = RigidObjectDataset objs
               \<and> length objs = length (rglob fs ycb_dir ''.ply'')
               \<and> sorted ?plys
               \<and> (\<forall>N. 1 \<le> N \<and> N \<le> length objs \<longrightarrow>
                     objs ! (N - 1) =
                       \<lparr>rigid_label = canonical N, mesh_path = ?plys ! (N - 1),
                          mesh_units = ''mm''\<rparr>)"
    using run len nth by (intro exI [of _ ?objs]) simp
next
  assume a: "iterdir gfs cad_model_dir = Inr object_dirs
      \<and> (\<forall>d \<in> set object_dirs. length (mesh_candidates gfs d) = 1)"
  let ?objs = "map (\<lambda>d. \<lparr>rigid_label = name d, mesh_path = hd (mesh_candidates gfs d),
                            mesh_units = ''m''\<rparr>) object_dirs"
  from a object_dirs_loop_ok [of object_dirs gfs "[]"]
  have "make_object_dataset RigidObjectDataset gfs cad_model_dir = RigidObjectDataset ?objs"
    by (simp add: make_object_dataset_def)
  moreover have "map rigid_label ?objs = map name object_dirs"
    by (simp add: comp_def)
  moreover have "\<forall>obj \<in> set ?objs. mesh_units obj = ''m''"
    by auto
  ultimately show "\<exists>objs. make_object_dataset RigidObjectDataset gfs cad_model_dir
                    = RigidObjectDataset objs
               \<and> map rigid_label objs = map name object_dirs
               \<and> (\<forall>obj \<in> set objs. mesh_units obj = ''m'')"
    by blast
qed

text \<open>
  C6. In generic mode an entry of the root with no mesh candidate, or with several, makes
  \<^verbatim>\<open>make_object_dataset\<close> fail on an assertion (the spec's CatalogError).
  When each of the N entries has exactly one, the dataset is built from N objects with
  pairwise different labels, and the mesh of each exists in the file system, has a mesh
  suffix and lies directly in the directory named by the label.
\<close>

theorem make_object_dataset_one_mesh_per_directory:
  assumes "iterdir fs cad_model_dir = Inr object_dirs"
  shows "((\<exists>d \<in> set object_dirs. length (mesh_candidates fs d) \<noteq> 1)
            \<longrightarrow> make_object_dataset RigidObjectDataset fs cad_model_dir = Inl AssertionError)
       \<and> ((\<forall>d \<in> set object_dirs. length (mesh_candidates fs d) = 1) \<and> distinct (map fst fs)
            \<longrightarrow> (\<exists>objs. make_object_dataset RigidObjectDataset fs cad_model_dir
                           = RigidObjectDataset objs
                      \<and> length objs = length object_dirs
                      \<and> distinct (map rigid_label objs)
                      \<and> (\<forall>obj \<in> set objs.
                            map_of fs (mesh_path obj) \<noteq> None
                            \<and> is_mesh (mesh_path obj)
                            \<and> butlast (mesh_path obj) = cad_model_dir @ [rigid_label obj])))"
proof (intro conjI impI)
  assume "\<exists>d \<in> set object_dirs. length (mesh_candidates fs d) \<noteq> 1"
  from object_dirs_loop_fail [OF this, of "[]"] assms
  show "make_object_dataset RigidObjectDataset fs cad_model_dir = Inl AssertionError"
    by (simp add: make_object_dataset_def)
next
  assume a: "(\<forall>d \<in> set object_dirs. length (mesh_candidates fs d) = 1) \<and> distinct (map fst fs)"
  let ?objs = "map (\<lambda>d. \<lparr>rigid_label = name d, mesh_path = hd (mesh_candidates fs d),
                            mesh_units = ''m''\<rparr>) object_dirs"
  have dirs: "object_dirs = children fs cad_model_dir"
    using assms by (rule children_of_iterdir)
  from a object_dirs_loop_ok [of object_dirs fs "[]"] assms
  have run: "make_object_dataset RigidObjectDataset fs cad_model_dir = RigidObjectDataset ?objs"
    by (simp add: make_object_dataset_def)
  have labels: "map rigid_label ?objs = map name object_dirs"
    by (simp add: comp_def)
  have "distinct (map name object_dirs)"
    using a children_names_distinct [of fs cad_model_dir] by (simp add: dirs)
  with labels have dist: "distinct (map rigid_label ?objs)"
    by (simp only:)
  have meshes: "\<forall>obj \<in> set ?objs.
      map_of fs (mesh_path obj) \<noteq> None \<and> is_mesh (mesh_path obj)
      \<and> butlast (mesh_path obj) = cad_model_dir @ [rigid_label obj]"
  proof
    fix obj
    assume "obj \<in> set ?objs"
    then obtain d where d: "d \<in> set object_dirs"
      and obj: "obj = \<lparr>rigid_label = name d, mesh_path = hd (mesh_candidates fs d),
                        mesh_units = ''m''\<rparr>"
      by auto
    from d a have one: "length (mesh_candidates fs d) = 1" by simp
    from d have "d \<noteq> []" "butlast d = cad_model_dir"
      by (auto simp: dirs children_def)
    then have "d = cad_model_dir @ [name d]"
      by (metis append_butlast_last_id name_def)
    with mesh_candidate_props [OF one] show
      "map_of fs (mesh_path obj) \<noteq> None \<and> is_mesh (mesh_path obj)
       \<and> butlast (mesh_path obj) = cad_model_dir @ [rigid_label obj]"
      by (simp add: obj)
  qed
  show "\<exists>objs. make_object_dataset RigidObjectDataset fs cad_model_dir = RigidObjectDataset objs
      \<and> length objs = length object_dirs
      \<and> distinct (map rigid_label objs)
      \<and> (\<forall>obj \<in> set objs.
            map_of fs (mesh_path obj) \<noteq> None
            \<and> is_mesh (mesh_path obj)
            \<and> butlast (mesh_path obj) = cad_model_dir @ [rigid_label obj])"
    using run dist meshes by (intro exI [of _ ?objs]) simp
qed


lemma rglob_fs_ycb:
  "rglob fs_ycb [''models''] ''.ply'' =
     [[''models'', ''obj_000002.ply''], [''models'', ''obj_000001.ply''],
      [''models'', ''extra'', ''a.ply'']]"
  by (simp add: fs_ycb_def rglob_def ends_with_def is_dir_def)

lemma sort_rglob_fs_ycb:
  "sort (rglob fs_ycb [''models''] ''.ply'') =
     [[''models'', ''extra'', ''a.ply''], [''models'', ''obj_000001.ply''],
      [''models'', ''obj_000002.ply'']]"
  by (simp add: rglob_fs_ycb)

lemma iterdir_fs_catalog:
  "iterdir fs_catalog [''cad''] = Inr [[''cad'', ''mug''], [''cad'', ''drill'']]"
  by (simp add: fs_catalog_def iterdir_def children_def)

lemma candidates_fs_catalog:
  "mesh_candidates fs_catalog [''cad'', ''mug''] = [[''cad'', ''mug'', ''mug.obj'']]"
  "mesh_candidates fs_catalog [''cad'', ''drill''] = [[''cad'', ''drill'', ''drill.ply'']]"
  by (simp_all add: fs_catalog_def mesh_candidates_def glob_star_def children_def is_dir_def
      is_mesh_def suffix_def name_def rfind_def)

theorem catalog_labels_and_units_witness:
  "(\<exists>objs. make_ycb_object_dataset convert_number0 dataset0 fs_ycb [''models''] = Inr objs
      \<and> length objs = 3
      \<and> objs ! 0 = \<lparr>rigid_label = ''002_master_chef_can'',
                       mesh_path = [''models'', ''extra'', ''a.ply''], mesh_units = ''mm''\<rparr>
      \<and> objs ! 2 = \<lparr>rigid_label = ''004_sugar_box'',
                       mesh_path = [''models'', ''obj_000002.ply''], mesh_units = ''mm''\<rparr>)
   \<and> (\<exists>objs. make_object_dataset dataset0 fs_catalog [''cad''] = Inr objs
      \<and> map rigid_label objs = [''mug'', ''drill'']
      \<and> list_all (\<lambda>obj. mesh_units obj = ''m'') objs)"
proof -
  note inst = catalog_labels_and_units
    [of fs_ycb "[''models'']" convert_number0 ycb_canonical dataset0
      fs_catalog "[''cad'']" "[[''cad'', ''mug''], [''cad'', ''drill'']]"]
  have ycb: "\<forall>N. 1 \<le> N \<and> N \<le> length (rglob fs_ycb [''models''] ''.ply'')
      \<longrightarrow> convert_number0 N = Inr (ycb_canonical N)"
    by (simp add: rglob_fs_ycb convert_number0_def)
  have generic: "iterdir fs_catalog [''cad''] = Inr [[''cad'', ''mug''], [''cad'', ''drill'']]
      \<and> (\<forall>d \<in> set [[''cad'', ''mug''], [''cad'', ''drill'']].
            length (mesh_candidates fs_catalog d) = 1)"
    by (simp add: iterdir_fs_catalog candidates_fs_catalog)
  from inst ycb obtain objs where
    o: "make_ycb_object_dataset convert_number0 dataset0 fs_ycb [''models''] = dataset0 objs"
      "length objs = length (rglob fs_ycb [''models''] ''.ply'')"
      "\<forall>N. 1 \<le> N \<and> N \<le> length objs \<longrightarrow>
          objs ! (N - 1) =
            \<lparr>rigid_label = ycb_canonical N,
               mesh_path = sort (rglob fs_ycb [''models''] ''.ply'') ! (N - 1),
               mesh_units = ''mm''\<rparr>"
    by blast
  from o(2) have len: "length objs = 3"
    by (simp add: rglob_fs_ycb)
  from o(3) [rule_format, of 1] len
  have first: "objs ! 0 = \<lparr>rigid_label = ''002_master_chef_can'',
      mesh_path = [''models'', ''extra'', ''a.ply''], mesh_units = ''mm''\<rparr>"
    by (simp add: sort_rglob_fs_ycb ycb_canonical_def)
  from o(3) [rule_format, of 3] len
  have third: "objs ! 2 = \<lparr>rigid_label = ''004_sugar_box'',
      mesh_path = [''models'', ''obj_000002.ply''], mesh_units = ''mm''\<rparr>"
    by (simp add: sort_rglob_fs_ycb ycb_canonical_def)
  from inst generic obtain objs' where
    g: "make_object_dataset dataset0 fs_catalog [''cad''] = dataset0 objs'"
      "map rigid_label objs' = map name [[''cad'', ''mug''], [''cad'', ''drill'']]"
      "\<forall>obj \<in> set objs'. mesh_units obj = ''m''"
    by blast
  from g(2) have names: "map rigid_label objs' = [''mug'', ''drill'']"
    by (simp add: name_def)
  from g(3) have units: "list_all (\<lambda>obj. mesh_units obj = ''m'') objs'"
    by (simp add: list_all_iff)
  from o(1) len first third g(1) names units show ?thesis
    by (auto simp: dataset0_def)
qed

lemma iterdir_fs_two_meshes:
  "iterdir fs_two_meshes [''cad''] = Inr [[''cad'', ''mug'']]"
  by (simp add: fs_two_meshes_def iterdir_def children_def)

lemma candidates_fs_two_meshes:
  "mesh_candidates fs_two_meshes [''cad'', ''mug''] =
     [[''cad'', ''mug'', ''mug.obj''], [''cad'', ''mug'', ''mug.ply'']]"
  by (simp add: fs_two_meshes_def mesh_candidates_def glob_star_def children_def is_dir_def
      is_mesh_def suffix_def name_def rfind_def)

theorem make_object_dataset_one_mesh_per_directory_witness:
  "make_object_dataset dataset0 fs_two_meshes [''cad''] = Inl AssertionError
   \<and> (\<exists>objs. make_object_dataset dataset0 fs_catalog [''cad''] = Inr objs
      \<and> length objs = 2
      \<and> distinct (map rigid_label objs)
      \<and> list_all (\<lambda>obj. map_of fs_catalog (mesh_path obj) \<noteq> None
                       \<and> is_mesh (mesh_path obj)
                       \<and> butlast (mesh_path obj) = [''cad''] @ [rigid_label obj]) objs)"
proof -
  have "\<exists>d \<in> set [[''cad'', ''mug'']]. length (mesh_candidates fs_two_meshes d) \<noteq> 1"
    by (simp add: candidates_fs_two_meshes)
  with make_object_dataset_one_mesh_per_directory [OF iterdir_fs_two_meshes, of dataset0]
  have bad: "make_object_dataset dataset0 fs_two_meshes [''cad''] = Inl AssertionError"
    by blast
  have "(\<forall>d \<in> set [[''cad'', ''mug''], [''cad'', ''drill'']].
           length (mesh_candidates fs_catalog d) = 1) \<and> distinct (map fst fs_catalog)"
    by (simp add: candidates_fs_catalog) (simp add: fs_catalog_def)
  with make_object_dataset_one_mesh_per_directory [OF iterdir_fs_catalog, of dataset0]
  obtain objs where
    g: "make_object_dataset dataset0 fs_catalog [''cad''] = dataset0 objs"
      "length objs = length [[''cad'', ''mug''], [''cad'', ''drill'']]"
      "distinct (map rigid_label objs)"
      "\<forall>obj \<in> set objs. map_of fs_catalog (mesh_path obj) \<noteq> None
          \<and> is_mesh (mesh_path obj)
          \<and> butlast (mesh_path obj) = [''cad''] @ [rigid_label obj]"
    by blast
  from g(4) have "list_all (\<lambda>obj. map_of fs_catalog (mesh_path obj) \<noteq> None
      \<and> is_mesh (mesh_path obj)
      \<and> butlast (mesh_path obj) = [''cad''] @ [rigid_label obj]) objs"
    by (simp only: list_all_iff)
  with bad g(1) g(2) g(3) show ?thesis
    by (auto simp: dataset0_def)
qed

lemma rglob_odd: "rglob fs_odd [''renders'', ''obj_000001''] ''.png'' = [[''renders'', ''obj_000001'', ''rgb_000.png''], [''renders'', ''obj_000001'', ''normal_000.png''], [''renders'', ''obj_000001'', ''rgb_001.png'']]"
  by (simp add: fs_odd_def rglob_def ends_with_def is_dir_def)

lemma load_pairs_fail:
  "i \<in> set idxs \<Longrightarrow> combined_tensor fs p i = Inl e \<Longrightarrow> \<exists>e'. load_pairs fs p idxs acc = Inl e'"
proof (induction idxs arbitrary: acc)
  case Nil
  then show ?case by simp
next
  case (Cons j idxs)
  show ?case
  proof (cases "combined_tensor fs p j")
    case (Inl a)
    then show ?thesis by simp
  next
    case (Inr t)
    with Cons.prems have "i \<in> set idxs" by auto
    from Cons.IH [OF this Cons.prems(2)] Inr show ?thesis by simp
  qed
qed

lemma load_pairs_ok:
  "\<forall>i \<in> set idxs. combined_tensor fs p i = Inr (f i) \<Longrightarrow>
     load_pairs fs p idxs acc = Inr (acc @ map f idxs)"
  by (induction idxs arbitrary: acc) simp_all

lemma load_folders_fail:
  "s \<in> set names \<Longrightarrow> is_dir fs (rp @ [s]) \<Longrightarrow> folder_tensor fs (rp @ [s]) = Inl e \<Longrightarrow>
     \<exists>e'. load_folders fs rp names acc = Inl e'"
proof (induction names arbitrary: acc)
  case Nil
  then show ?case by simp
next
  case (Cons x names)
  show ?case
  proof (cases "x = s")
    case True
    with Cons.prems show ?thesis by simp
  next
    case False
    with Cons.prems have "s \<in> set names" by simp
    from Cons.IH [OF this Cons.prems(2,3)] show ?thesis
      by (cases "folder_tensor fs (rp @ [x])") auto
  qed
qed

lemma load_folders_ok:
  "\<forall>s \<in> set names. is_dir fs (rp @ [s]) \<longrightarrow> folder_tensor fs (rp @ [s]) = Inr (T s) \<Longrightarrow>
     load_folders fs rp names acc =
       Inr (\<lambda>s. if s \<in> set names \<and> is_dir fs (rp @ [s]) then Some (T s) else acc s)"
proof (induction names arbitrary: acc)
  case Nil
  then show ?case by simp
next
  case (Cons x names)
  then have IH: "\<And>acc. load_folders fs rp names acc =
      Inr (\<lambda>s. if s \<in> set names \<and> is_dir fs (rp @ [s]) then Some (T s) else acc s)"
    by simp
  show ?case
  proof (cases "is_dir fs (rp @ [x])")
    case True
    with Cons.prems have "folder_tensor fs (rp @ [x]) = Inr (T x)" by simp
    with True show ?thesis
      by (auto simp: IH)
  next
    case False
    then show ?thesis
      by (auto simp: IH)
  qed
qed

lemma folder_tensor_fail:
  "i < num_files fs p \<Longrightarrow> combined_tensor fs p i = Inl e \<Longrightarrow> \<exists>e'. folder_tensor fs p = Inl e'"
  using load_pairs_fail [of i "[0..<num_files fs p]" fs p e "[]"]
  by (auto simp: folder_tensor_def)

lemma combined_tensor_missing:
  "Image_open fs (rgb_path p i) = Inl e \<or> Image_open fs (normal_path p i) = Inl e \<Longrightarrow>
     \<exists>e'. combined_tensor fs p i = Inl e'"
  by (auto simp: combined_tensor_def split: sum.splits)

text \<open>
  C3 (amended). For a directory entry of the root with n PNG files below it, if for some
  index i below n div 2 the file \<^verbatim>\<open>rgb_i.png\<close> or
  \<^verbatim>\<open>normal_i.png\<close> (i padded to three digits) cannot be opened directly in
  that directory, \<^verbatim>\<open>load_renders\<close> fails and returns no cache.
\<close>

theorem load_renders_missing_counterpart:
  assumes "listdir fs renders_path = Inr sub_folders"
    and "sub_folder \<in> set sub_folders"
    and "is_dir fs (renders_path @ [sub_folder])"
    and "i < num_files fs (renders_path @ [sub_folder])"
    and "Image_open fs (rgb_path (renders_path @ [sub_folder]) i) = Inl e
         \<or> Image_open fs (normal_path (renders_path @ [sub_folder]) i) = Inl e"
  shows "\<exists>e'. load_renders fs renders_path = Inl e'"
proof -
  from combined_tensor_missing [OF assms(5)] obtain e1 where
    "combined_tensor fs (renders_path @ [sub_folder]) i = Inl e1" by blast
  from folder_tensor_fail [OF assms(4) this] obtain e2 where
    "folder_tensor fs (renders_path @ [sub_folder]) = Inl e2" by blast
  from load_folders_fail [OF assms(2,3) this, of Map.empty] assms(1)
  show ?thesis
    by (simp add: load_renders_def)
qed

lemma listdir_fs_odd: "listdir fs_odd [''renders''] = Inr [''readme.txt'', ''obj_000001'']"
  by (simp add: fs_odd_def listdir_def iterdir_def children_def name_def)

lemma is_dir_fs_odd:
  "\<not> is_dir fs_odd [''renders'', ''readme.txt'']"
  "is_dir fs_odd [''renders'', ''obj_000001'']"
  by (simp_all add: fs_odd_def is_dir_def)

lemma open_fs_odd:
  "Image_open fs_odd [''renders'', ''obj_000001'', ''rgb_000.png''] = Inr (img_view 0)"
  "Image_open fs_odd [''renders'', ''obj_000001'', ''normal_000.png''] = Inr (img_view 1)"
  by (simp_all add: fs_odd_def Image_open_def)

lemma format_03d_0: "format_03d 0 = ''000''"
  by code_simp

lemma combined_fs_odd:
  "combined_tensor fs_odd [''renders'', ''obj_000001''] 0
     = torch_cat (to_tensor (img_view 0)) (to_tensor (img_view 1))"
  by (simp add: combined_tensor_def rgb_path_def normal_path_def format_03d_0 open_fs_odd)

lemma folder_fs_odd:
  "\<exists>t. folder_tensor fs_odd [''renders'', ''obj_000001''] = Inr t \<and> shape t = [1, 6, 2, 3]"
  by (simp add: folder_tensor_def num_files_def rglob_odd combined_fs_odd torch_cat_def to_tensor_def
      torch_stack_def img_view_def height_def width_def)



lemma eight_bit_pixel:
  assumes "eight_bit im c h w" "ch < c" "y < h" "x < w"
  shows "getpixel im x y ch \<le> 255"
proof -
  from assms have "getpixel im x y ch < 2 ^ sample_bits (mode im)"
    by (auto simp: eight_bit_def image_ok_def width_def height_def)
  moreover from assms have "sample_bits (mode im) = 8"
    by (cases "mode im") (auto simp: eight_bit_def)
  ultimately show ?thesis by simp
qed

lemma to_tensor_eight_bit:
  assumes "eight_bit im c h w"
  shows "shape (to_tensor im) = [c, h, w]"
    and "item (to_tensor im) [ch, y, x] = real (getpixel im x y ch) / 255"
  using assms by (auto simp: to_tensor_def eight_bit_def height_def width_def)

lemma torch_cat_ok:
  assumes "shape a = c1 # s" "shape b = c2 # s"
  shows "\<exists>t. torch_cat a b = Inr t
           \<and> shape t = (c1 + c2) # s
           \<and> (\<forall>i rest. item t (i # rest) =
                 (if i < c1 then item a (i # rest) else item b ((i - c1) # rest)))"
  using assms by (simp add: torch_cat_def)

lemma torch_stack_ok:
  assumes "ts \<noteq> []" "\<forall>u \<in> set ts. shape u = s"
  shows "\<exists>t. torch_stack ts = Inr t
           \<and> shape t = length ts # s
           \<and> (\<forall>i < length ts. \<forall>idx. item t (i # idx) = item (ts ! i) idx)"
  using assms by (cases ts) (auto simp: torch_stack_def list_all_iff)

lemma combined_tensor_ok:
  assumes "render_pair_ok fs p i c h w"
  shows "\<exists>t rgb_image normal_image.
           combined_tensor fs p i = Inr t
           \<and> Image_open fs (rgb_path p i) = Inr rgb_image
           \<and> Image_open fs (normal_path p i) = Inr normal_image
           \<and> shape t = [2 * c, h, w]
           \<and> (\<forall>ch y x. ch < 2 * c \<and> y < h \<and> x < w \<longrightarrow>
                 item t [ch, y, x] =
                   (if ch < c then real (getpixel rgb_image x y ch) / 255
                    else real (getpixel normal_image x y (ch - c)) / 255)
                 \<and> 0 \<le> item t [ch, y, x] \<and> item t [ch, y, x] \<le> 1)"
proof -
  from assms obtain r n where
    r: "Image_open fs (rgb_path p i) = Inr r" "eight_bit r c h w" and
    n: "Image_open fs (normal_path p i) = Inr n" "eight_bit n c h w"
    by (auto simp: render_pair_ok_def split: sum.splits)
  from torch_cat_ok [OF to_tensor_eight_bit(1) [OF r(2)] to_tensor_eight_bit(1) [OF n(2)]]
  obtain t where
    t: "torch_cat (to_tensor r) (to_tensor n) = Inr t" "shape t = (c + c) # [h, w]"
      "\<forall>i rest. item t (i # rest) =
         (if i < c then item (to_tensor r) (i # rest) else item (to_tensor n) ((i - c) # rest))"
    by blast
  have run: "combined_tensor fs p i = Inr t"
    by (simp add: combined_tensor_def r n t(1))
  have vals: "\<forall>ch y x. ch < 2 * c \<and> y < h \<and> x < w \<longrightarrow>
      item t [ch, y, x] =
        (if ch < c then real (getpixel r x y ch) / 255
         else real (getpixel n x y (ch - c)) / 255)
      \<and> 0 \<le> item t [ch, y, x] \<and> item t [ch, y, x] \<le> 1"
  proof (intro allI impI)
    fix ch y x
    assume a: "ch < 2 * c \<and> y < h \<and> x < w"
    show "item t [ch, y, x] =
        (if ch < c then real (getpixel r x y ch) / 255
         else real (getpixel n x y (ch - c)) / 255)
      \<and> 0 \<le> item t [ch, y, x] \<and> item t [ch, y, x] \<le> 1"
    proof (cases "ch < c")
      case True
      with a eight_bit_pixel [OF r(2), of ch y x] have "getpixel r x y ch \<le> 255" by simp
      with True show ?thesis
        by (simp add: t(3) to_tensor_eight_bit(2) [OF r(2)])
    next
      case False
      with a have "ch - c < c" by arith
      with a eight_bit_pixel [OF n(2), of "ch - c" y x] have "getpixel n x y (ch - c) \<le> 255"
        by simp
      with False show ?thesis
        by (simp add: t(3) to_tensor_eight_bit(2) [OF n(2)])
    qed
  qed
  have "shape t = [2 * c, h, w]" using t(2) by simp
  with run r(1) n(1) vals show ?thesis by blast
qed

lemma folder_tensor_ok:
  assumes "0 < num_files fs p"
    and "\<forall>i < num_files fs p. combined_tensor fs p i = Inr (f i) \<and> shape (f i) = s"
  shows "\<exists>t. folder_tensor fs p = Inr t
           \<and> shape t = num_files fs p # s
           \<and> (\<forall>i < num_files fs p. \<forall>idx. item t (i # idx) = item (f i) idx)"
proof -
  let ?k = "num_files fs p"
  let ?ts = "map f [0..<?k]"
  from assms(2) have "load_pairs fs p [0..<?k] [] = Inr ([] @ ?ts)"
    by (intro load_pairs_ok) simp
  then have run: "folder_tensor fs p = torch_stack ?ts"
    by (simp add: folder_tensor_def)
  have "?ts \<noteq> []" using assms(1) by simp
  moreover have "\<forall>u \<in> set ?ts. shape u = s" using assms(2) by auto
  ultimately obtain t where
    t: "torch_stack ?ts = Inr t" "shape t = length ?ts # s"
      "\<forall>i < length ?ts. \<forall>idx. item t (i # idx) = item (?ts ! i) idx"
    using torch_stack_ok [of ?ts s] by blast
  from t(3) have "\<forall>i < ?k. \<forall>idx. item t (i # idx) = item (f i) idx" by simp
  with run t(1,2) show ?thesis by simp
qed

lemma folder_tensor_well_formed:
  assumes "0 < num_files fs p"
    and "\<forall>i < num_files fs p. render_pair_ok fs p i c h w"
  shows "\<exists>t. folder_tensor fs p = Inr t
           \<and> shape t = [num_files fs p, 2 * c, h, w]
           \<and> (\<forall>i < num_files fs p. \<forall>ch < 2 * c. \<forall>y < h. \<forall>x < w.
                 0 \<le> item t [i, ch, y, x] \<and> item t [i, ch, y, x] \<le> 1
                 \<and> (\<exists>rgb_image normal_image.
                       Image_open fs (rgb_path p i) = Inr rgb_image
                       \<and> Image_open fs (normal_path p i) = Inr normal_image
                       \<and> item t [i, ch, y, x] =
                           (if ch < c then real (getpixel rgb_image x y ch) / 255
                            else real (getpixel normal_image x y (ch - c)) / 255)))"
proof -
  let ?f = "\<lambda>i. projr (combined_tensor fs p i)"
  have each: "\<forall>i < num_files fs p. combined_tensor fs p i = Inr (?f i) \<and> shape (?f i) = [2 * c, h, w]"
  proof (intro allI impI)
    fix i assume "i < num_files fs p"
    with assms(2) have "render_pair_ok fs p i c h w" by simp
    from combined_tensor_ok [OF this] show
      "combined_tensor fs p i = Inr (?f i) \<and> shape (?f i) = [2 * c, h, w]"
      by auto
  qed
  from folder_tensor_ok [OF assms(1) each] obtain t where
    t: "folder_tensor fs p = Inr t" "shape t = num_files fs p # [2 * c, h, w]"
      "\<forall>i < num_files fs p. \<forall>idx. item t (i # idx) = item (?f i) idx"
    by blast
  have "\<forall>i < num_files fs p. \<forall>ch < 2 * c. \<forall>y < h. \<forall>x < w.
      0 \<le> item t [i, ch, y, x] \<and> item t [i, ch, y, x] \<le> 1
      \<and> (\<exists>rgb_image normal_image.
            Image_open fs (rgb_path p i) = Inr rgb_image
            \<and> Image_open fs (normal_path p i) = Inr normal_image
            \<and> item t [i, ch, y, x] =
                (if ch < c then real (getpixel rgb_image x y ch) / 255
                 else real (getpixel normal_image x y (ch - c)) / 255))"
  proof (intro allI impI)
    fix i ch y x
    assume i: "i < num_files fs p" and b: "ch < 2 * c" "y < h" "x < w"
    from i assms(2) have "render_pair_ok fs p i c h w" by simp
    from combined_tensor_ok [OF this] obtain u r n where
      u: "combined_tensor fs p i = Inr u"
        "Image_open fs (rgb_path p i) = Inr r" "Image_open fs (normal_path p i) = Inr n"
        "\<forall>ch y x. ch < 2 * c \<and> y < h \<and> x < w \<longrightarrow>
           item u [ch, y, x] =
             (if ch < c then real (getpixel r x y ch) / 255
              else real (getpixel n x y (ch - c)) / 255)
           \<and> 0 \<le> item u [ch, y, x] \<and> item u [ch, y, x] \<le> 1"
      by blast
    from u(1) have "?f i = u" by simp
    with t(3) i have "item t [i, ch, y, x] = item u [ch, y, x]" by simp
    with u(2,3) u(4) [rule_format, of ch y x] b show
      "0 \<le> item t [i, ch, y, x] \<and> item t [i, ch, y, x] \<le> 1
       \<and> (\<exists>rgb_image normal_image.
             Image_open fs (rgb_path p i) = Inr rgb_image
             \<and> Image_open fs (normal_path p i) = Inr normal_image
             \<and> item t [i, ch, y, x] =
                 (if ch < c then real (getpixel rgb_image x y ch) / 255
                  else real (getpixel normal_image x y (ch - c)) / 255))"
      by simp
  qed
  with t(1,2) show ?thesis by simp
qed


text \<open>
  C4. When every directory entry of the root holds, for each index below half its number of
  PNG files (at least one), an 8-bit appearance image and an 8-bit normal image of the same
  size and band count c, \<^verbatim>\<open>load_renders\<close> returns a cache whose keys are
  exactly the directory entries (other entries are skipped), and the tensor of each has
  the shape [n div 2, 2 c, H, W], entries between 0 and 1, the first c channels of view i
  being the appearance samples divided by 255 and the last c the normal samples.
\<close>

theorem load_renders_well_formed:
  assumes "listdir fs renders_path = Inr sub_folders"
    and "\<forall>s \<in> set sub_folders. is_dir fs (renders_path @ [s]) \<longrightarrow>
           0 < num_files fs (renders_path @ [s])
           \<and> (\<forall>i < num_files fs (renders_path @ [s]).
                 render_pair_ok fs (renders_path @ [s]) i (c s) (h s) (w s))"
  shows "(\<forall>p. num_files fs p = length (rglob fs p ''.png'') div 2)
       \<and> (\<exists>m. load_renders fs renders_path = Inr m
           \<and> (\<forall>s. m s \<noteq> None \<longleftrightarrow> s \<in> set sub_folders \<and> is_dir fs (renders_path @ [s]))
           \<and> (\<forall>s \<in> set sub_folders. is_dir fs (renders_path @ [s]) \<longrightarrow>
                (\<exists>t. m s = Some t
                   \<and> shape t = [num_files fs (renders_path @ [s]), 2 * c s, h s, w s]
                   \<and> (\<forall>i < num_files fs (renders_path @ [s]).
                        \<forall>ch < 2 * c s. \<forall>y < h s. \<forall>x < w s.
                          0 \<le> item t [i, ch, y, x] \<and> item t [i, ch, y, x] \<le> 1
                          \<and> (\<exists>rgb_image normal_image.
                                Image_open fs (rgb_path (renders_path @ [s]) i) = Inr rgb_image
                                \<and> Image_open fs (normal_path (renders_path @ [s]) i)
                                    = Inr normal_image
                                \<and> item t [i, ch, y, x] =
                                    (if ch < c s
                                     then real (getpixel rgb_image x y ch) / 255
                                     else real (getpixel normal_image x y (ch - c s)) / 255))))))"
proof -
  let ?T = "\<lambda>s. projr (folder_tensor fs (renders_path @ [s]))"
  let ?m = "\<lambda>s. if s \<in> set sub_folders \<and> is_dir fs (renders_path @ [s])
                 then Some (?T s) else None"
  have each: "\<forall>s \<in> set sub_folders. is_dir fs (renders_path @ [s]) \<longrightarrow>
      folder_tensor fs (renders_path @ [s]) = Inr (?T s)"
  proof (intro ballI impI)
    fix s assume "s \<in> set sub_folders" "is_dir fs (renders_path @ [s])"
    with assms(2) folder_tensor_well_formed [of fs "renders_path @ [s]" "c s" "h s" "w s"]
    show "folder_tensor fs (renders_path @ [s]) = Inr (?T s)" by auto
  qed
  from load_folders_ok [OF each, of Map.empty]
  have run: "load_renders fs renders_path = Inr ?m"
    by (simp add: load_renders_def assms(1))
  have dom: "\<forall>s. ?m s \<noteq> None \<longleftrightarrow> s \<in> set sub_folders \<and> is_dir fs (renders_path @ [s])"
    by simp
  have vals: "\<forall>s \<in> set sub_folders. is_dir fs (renders_path @ [s]) \<longrightarrow>
      (\<exists>t. ?m s = Some t
         \<and> shape t = [num_files fs (renders_path @ [s]), 2 * c s, h s, w s]
         \<and> (\<forall>i < num_files fs (renders_path @ [s]).
              \<forall>ch < 2 * c s. \<forall>y < h s. \<forall>x < w s.
                0 \<le> item t [i, ch, y, x] \<and> item t [i, ch, y, x] \<le> 1
                \<and> (\<exists>rgb_image normal_image.
                      Image_open fs (rgb_path (renders_path @ [s]) i) = Inr rgb_image
                      \<and> Image_open fs (normal_path (renders_path @ [s]) i) = Inr normal_image
                      \<and> item t [i, ch, y, x] =
                          (if ch < c s
                           then real (getpixel rgb_image x y ch) / 255
                           else real (getpixel normal_image x y (ch - c s)) / 255))))"
  proof (intro ballI impI)
    fix s assume s: "s \<in> set sub_folders" "is_dir fs (renders_path @ [s])"
    with assms(2) have ok: "0 < num_files fs (renders_path @ [s])"
      "\<forall>i < num_files fs (renders_path @ [s]).
          render_pair_ok fs (renders_path @ [s]) i (c s) (h s) (w s)"
      by auto
    from folder_tensor_well_formed [OF ok] obtain t where
      t: "folder_tensor fs (renders_path @ [s]) = Inr t"
        "shape t = [num_files fs (renders_path @ [s]), 2 * c s, h s, w s]"
        "\<forall>i < num_files fs (renders_path @ [s]).
           \<forall>ch < 2 * c s. \<forall>y < h s. \<forall>x < w s.
             0 \<le> item t [i, ch, y, x] \<and> item t [i, ch, y, x] \<le> 1
             \<and> (\<exists>rgb_image normal_image.
                   Image_open fs (rgb_path (renders_path @ [s]) i) = Inr rgb_image
                   \<and> Image_open fs (normal_path (renders_path @ [s]) i) = Inr normal_image
                   \<and> item t [i, ch, y, x] =
                       (if ch < c s
                        then real (getpixel rgb_image x y ch) / 255
                        else real (getpixel normal_image x y (ch - c s)) / 255))"
      by blast
    from t(1) s have "?m s = Some t" by simp
    with t(2,3) show "\<exists>t. ?m s = Some t
         \<and> shape t = [num_files fs (renders_path @ [s]), 2 * c s, h s, w s]
         \<and> (\<forall>i < num_files fs (renders_path @ [s]).
              \<forall>ch < 2 * c s. \<forall>y < h s. \<forall>x < w s.
                0 \<le> item t [i, ch, y, x] \<and> item t [i, ch, y, x] \<le> 1
                \<and> (\<exists>rgb_image normal_image.
                      Image_open fs (rgb_path (renders_path @ [s]) i) = Inr rgb_image
                      \<and> Image_open fs (normal_path (renders_path @ [s]) i) = Inr normal_image
                      \<and> item t [i, ch, y, x] =
                          (if ch < c s
                           then real (getpixel rgb_image x y ch) / 255
                           else real (getpixel normal_image x y (ch - c s)) / 255)))"
      by blast
  qed
  have "\<forall>p. num_files fs p = length (rglob fs p ''.png'') div 2"
    by (simp add: num_files_def)
  moreover from run dom vals have "\<exists>m. load_renders fs renders_path = Inr m
      \<and> (\<forall>s. m s \<noteq> None \<longleftrightarrow> s \<in> set sub_folders \<and> is_dir fs (renders_path @ [s]))
      \<and> (\<forall>s \<in> set sub_folders. is_dir fs (renders_path @ [s]) \<longrightarrow>
           (\<exists>t. m s = Some t
              \<and> shape t = [num_files fs (renders_path @ [s]), 2 * c s, h s, w s]
              \<and> (\<forall>i < num_files fs (renders_path @ [s]).
                   \<forall>ch < 2 * c s. \<forall>y < h s. \<forall>x < w s.
                     0 \<le> item t [i, ch, y, x] \<and> item t [i, ch, y, x] \<le> 1
                     \<and> (\<exists>rgb_image normal_image.
                           Image_open fs (rgb_path (renders_path @ [s]) i) = Inr rgb_image
                           \<and> Image_open fs (normal_path (renders_path @ [s]) i)
                               = Inr normal_image
                           \<and> item t [i, ch, y, x] =
                               (if ch < c s
                                then real (getpixel rgb_image x y ch) / 255
                                else real (getpixel normal_image x y (ch - c s)) / 255)))))"
    by (intro exI [of _ ?m] conjI)
  ultimately show ?thesis by (rule conjI)
qed


lemma format_03d_1: "format_03d (Suc 0) = ''001''"
  by code_simp

lemma img_view_eight_bit: "k \<le> 3 \<Longrightarrow> eight_bit (img_view k) 3 2 3"
  by (auto simp: eight_bit_def img_view_def image_ok_def width_def height_def)

lemma listdir_fs_cache: "listdir fs_cache [''renders''] = Inr [''readme.txt'', ''obj_000001'']"
  by (simp add: fs_cache_def listdir_def iterdir_def children_def name_def)

lemma is_dir_fs_cache:
  "\<not> is_dir fs_cache [''renders'', ''readme.txt'']"
  "is_dir fs_cache [''renders'', ''obj_000001'']"
  by (simp_all add: fs_cache_def is_dir_def)

lemma num_files_fs_cache: "num_files fs_cache [''renders'', ''obj_000001''] = 2"
  by (simp add: num_files_def fs_cache_def rglob_def ends_with_def is_dir_def)

lemma open_fs_cache:
  "Image_open fs_cache (rgb_path [''renders'', ''obj_000001''] 0) = Inr (img_view 0)"
  "Image_open fs_cache (normal_path [''renders'', ''obj_000001''] 0) = Inr (img_view 1)"
  "Image_open fs_cache (rgb_path [''renders'', ''obj_000001''] (Suc 0)) = Inr (img_view 2)"
  "Image_open fs_cache (normal_path [''renders'', ''obj_000001''] (Suc 0)) = Inr (img_view 3)"
  by (simp_all add: rgb_path_def normal_path_def format_03d_0 format_03d_1 fs_cache_def
      Image_open_def)

lemma pairs_fs_cache:
  "i < 2 \<Longrightarrow> render_pair_ok fs_cache [''renders'', ''obj_000001''] i 3 2 3"
proof -
  assume "i < 2"
  then have "i = 0 \<or> i = 1" by auto
  then show ?thesis
    by (auto simp: render_pair_ok_def open_fs_cache img_view_eight_bit)
qed

theorem load_renders_well_formed_witness:
  "length (rglob fs_cache [''renders'', ''obj_000001''] ''.png'') = 4
   \<and> (\<exists>m t. load_renders fs_cache [''renders''] = Inr m
      \<and> m ''readme.txt'' = None
      \<and> m ''obj_000001'' = Some t
      \<and> shape t = [2, 6, 2, 3]
      \<and> item t [1, 4, 0, 2] = 174 / 255
      \<and> 0 \<le> item t [1, 4, 0, 2] \<and> item t [1, 4, 0, 2] \<le> 1)"
proof -
  have count: "length (rglob fs_cache [''renders'', ''obj_000001''] ''.png'') = 4"
    by (simp add: fs_cache_def rglob_def ends_with_def is_dir_def)
  have ok: "\<forall>s \<in> set [''readme.txt'', ''obj_000001'']. is_dir fs_cache ([''renders''] @ [s]) \<longrightarrow>
      0 < num_files fs_cache ([''renders''] @ [s])
      \<and> (\<forall>i < num_files fs_cache ([''renders''] @ [s]).
            render_pair_ok fs_cache ([''renders''] @ [s]) i 3 2 3)"
    by (simp add: is_dir_fs_cache num_files_fs_cache pairs_fs_cache)
  from load_renders_well_formed
    [of fs_cache "[''renders'']" "[''readme.txt'', ''obj_000001'']"
      "\<lambda>s. 3" "\<lambda>s. 2" "\<lambda>s. 3", OF listdir_fs_cache ok]
  obtain m where
    m: "load_renders fs_cache [''renders''] = Inr m"
      "\<forall>s. m s \<noteq> None \<longleftrightarrow>
         s \<in> set [''readme.txt'', ''obj_000001''] \<and> is_dir fs_cache ([''renders''] @ [s])"
      "\<forall>s \<in> set [''readme.txt'', ''obj_000001'']. is_dir fs_cache ([''renders''] @ [s]) \<longrightarrow>
         (\<exists>t. m s = Some t
            \<and> shape t = [num_files fs_cache ([''renders''] @ [s]), 2 * 3, 2, 3]
            \<and> (\<forall>i < num_files fs_cache ([''renders''] @ [s]).
                 \<forall>ch < 2 * 3. \<forall>y < 2. \<forall>x < 3.
                   0 \<le> item t [i, ch, y, x] \<and> item t [i, ch, y, x] \<le> 1
                   \<and> (\<exists>rgb_image normal_image.
                         Image_open fs_cache (rgb_path ([''renders''] @ [s]) i) = Inr rgb_image
                         \<and> Image_open fs_cache (normal_path ([''renders''] @ [s]) i)
                             = Inr normal_image
                         \<and> item t [i, ch, y, x] =
                             (if ch < 3
                              then real (getpixel rgb_image x y ch) / 255
                              else real (getpixel normal_image x y (ch - 3)) / 255))))"
    by blast
  from m(2) [rule_format, of "''readme.txt''"] have skipped: "m ''readme.txt'' = None"
    by (simp add: is_dir_fs_cache)
  from m(3) [rule_format, of "''obj_000001''"] obtain t where
    t: "m ''obj_000001'' = Some t" "shape t = [2, 6, 2, 3]"
      "\<forall>i < 2. \<forall>ch < 6. \<forall>y < 2. \<forall>x < 3.
         0 \<le> item t [i, ch, y, x] \<and> item t [i, ch, y, x] \<le> 1
         \<and> (\<exists>rgb_image normal_image.
               Image_open fs_cache (rgb_path [''renders'', ''obj_000001''] i) = Inr rgb_image
               \<and> Image_open fs_cache (normal_path [''renders'', ''obj_000001''] i)
                   = Inr normal_image
               \<and> item t [i, ch, y, x] =
                   (if ch < 3
                    then real (getpixel rgb_image x y ch) / 255
                    else real (getpixel normal_image x y (ch - 3)) / 255))"
    by (auto simp: is_dir_fs_cache num_files_fs_cache)
  from t(3) [rule_format, of 1 4 0 2]
  have v: "0 \<le> item t [1, 4, 0, 2]" "item t [1, 4, 0, 2] \<le> 1"
    "item t [1, 4, 0, 2] = 174 / 255"
    by (auto simp: open_fs_cache img_view_def)
  from count m(1) skipped t(1,2) v show ?thesis by blast
qed

lemma listdir_fs_missing: "listdir fs_missing [''renders''] = Inr [''obj_000001'']"
  by (simp add: fs_missing_def listdir_def iterdir_def children_def name_def)

lemma num_files_fs_missing: "num_files fs_missing [''renders'', ''obj_000001''] = 2"
  by (simp add: num_files_def fs_missing_def rglob_def ends_with_def is_dir_def)

theorem load_renders_missing_counterpart_witness:
  "Image_open fs_missing (rgb_path [''renders'', ''obj_000001''] 1) = Inr (img_view 2)
   \<and> Image_open fs_missing (normal_path [''renders'', ''obj_000001''] 1) = Inl FileNotFoundError
   \<and> (\<exists>e'. load_renders fs_missing [''renders''] = Inl e')"
proof -
  have opens:
    "Image_open fs_missing (rgb_path [''renders'', ''obj_000001''] 1) = Inr (img_view 2)"
    "Image_open fs_missing (normal_path [''renders'', ''obj_000001''] 1) = Inl FileNotFoundError"
    by (simp_all add: rgb_path_def normal_path_def format_03d_1 fs_missing_def Image_open_def)
  have "\<exists>e'. load_renders fs_missing [''renders''] = Inl e'"
  proof (rule load_renders_missing_counterpart
      [of fs_missing "[''renders'']" "[''obj_000001'']" "''obj_000001''" 1 FileNotFoundError])
    show "listdir fs_missing [''renders''] = Inr [''obj_000001'']"
      by (rule listdir_fs_missing)
    show "''obj_000001'' \<in> set [''obj_000001'']" by simp
    show "is_dir fs_missing ([''renders''] @ [''obj_000001''])"
      by (simp add: fs_missing_def is_dir_def)
    show "1 < num_files fs_missing ([''renders''] @ [''obj_000001''])"
      by (simp add: num_files_fs_missing)
    show "Image_open fs_missing (rgb_path ([''renders''] @ [''obj_000001'']) 1)
            = Inl FileNotFoundError
          \<or> Image_open fs_missing (normal_path ([''renders''] @ [''obj_000001'']) 1)
            = Inl FileNotFoundError"
      using opens(2) by simp
  qed
  with opens show ?thesis by blast
qed

text \<open>
  C3 (as stated, it fails). The claim wants every unmatched set of PNG files refused. The
  directory below holds three PNG files, \<^verbatim>\<open>rgb_001.png\<close> has no normal
  counterpart, and \<^verbatim>\<open>load_renders\<close> returns a cache with one view for it:
  the count is halved and rounded down, and only the indices below it are opened.
\<close>

theorem load_renders_odd_count_counterexample:
  "length (rglob fs_odd [''renders'', ''obj_000001''] ''.png'') = 3
   \<and> Image_open fs_odd (rgb_path [''renders'', ''obj_000001''] 1) = Inr (img_view 2)
   \<and> Image_open fs_odd (normal_path [''renders'', ''obj_000001''] 1) = Inl FileNotFoundError
   \<and> (\<exists>m t. load_renders fs_odd [''renders''] = Inr m
          \<and> m ''obj_000001'' = Some t \<and> shape t = [1, 6, 2, 3])"
proof -
  have opens:
    "Image_open fs_odd (rgb_path [''renders'', ''obj_000001''] 1) = Inr (img_view 2)"
    "Image_open fs_odd (normal_path [''renders'', ''obj_000001''] 1) = Inl FileNotFoundError"
    by (simp_all add: rgb_path_def normal_path_def format_03d_1 fs_odd_def Image_open_def)
  from folder_fs_odd obtain t where
    t: "folder_tensor fs_odd [''renders'', ''obj_000001''] = Inr t" "shape t = [1, 6, 2, 3]"
    by blast
  then have "load_renders fs_odd [''renders''] = Inr [''obj_000001'' \<mapsto> t]"
    by (simp add: load_renders_def listdir_fs_odd is_dir_fs_odd)
  with t opens show ?thesis by (simp add: rglob_odd)
qed

lemma load_observation_fs_scene:
  "load_observation camera_from_json0 fs_scene [''ex''] False
     = Inr (np_array_uint8 img_rgb1, None, cam1)"
  by (simp add: load_observation_def fs_scene_def read_text_def Image_open_def
      camera_from_json0_cam1 np_array_uint8_def array_shape_def cam1_def img_rgb1_def
      height_def width_def)

lemma backends0_fields:
  "camera_json backends0 = camera_from_json0"
  "dataset_of backends0 = dataset0"
  by (simp_all add: backends0_def)

lemma load_object_data_fs_scene:
  "load_object_data (object_json backends0) fs_scene [''ex'', ''outputs'', ''object_data.json'']
     = Inr [\<lparr>label = ''obj_000001'', bbox_modal = None, TWO = Some (eye 4)\<rparr>]"
  by (simp add: load_object_data_def fs_scene_def read_text_def backends0_def)

lemma iterdir_fs_scene:
  "iterdir fs_scene [''ex''] =
     Inr [[''ex'', ''ycbv_camera_data.json''], [''ex'', ''image_rgb.png''],
          [''ex'', ''outputs''], [''ex'', ''obj_000001'']]"
  by (simp add: fs_scene_def iterdir_def children_def)

lemma make_object_dataset_fs_scene:
  "make_object_dataset dataset0 fs_scene [''ex''] = Inl AssertionError"
  by (simp add: make_object_dataset_def iterdir_fs_scene glob_star_def)
     (simp add: fs_scene_def is_dir_def)

lemma output_visualization_fs_scene:
  "output_visualization backends0 fs_scene [''ex''] = (Inl AssertionError, fs_scene)"
  by (simp add: output_visualization_def backends0_fields load_observation_fs_scene
      load_object_data_fs_scene make_object_dataset_fs_scene)

lemma load_observation_opens_rgb:
  "load_observation from_json fs example_dir load_depth = Inr r \<Longrightarrow>
     \<exists>im. Image_open fs (example_dir @ [''image_rgb.png'']) = Inr im"
  by (auto simp: load_observation_def split: sum.splits)

lemma Image_open_is_file:
  "Image_open fs p = Inr im \<Longrightarrow> map_of fs p = Some (File (Png im))"
  by (auto simp: Image_open_def split: option.splits entry.splits content.splits)

lemma make_object_dataset_with_file:
  assumes "map_of fs (cad_model_dir @ [n]) = Some (File c)"
  shows "\<exists>e. make_object_dataset mk fs cad_model_dir = Inl e"
proof (cases "iterdir fs cad_model_dir")
  case (Inl e)
  then show ?thesis by (simp add: make_object_dataset_def)
next
  case (Inr object_dirs)
  then have dirs: "object_dirs = children fs cad_model_dir"
    by (rule children_of_iterdir)
  from map_of_SomeD [OF assms] have "cad_model_dir @ [n] \<in> set (map fst fs)"
    by force
  then have mem: "cad_model_dir @ [n] \<in> set object_dirs"
    by (simp add: dirs children_def)
  from assms have "mesh_candidates fs (cad_model_dir @ [n]) = []"
    by (simp add: mesh_candidates_def glob_star_def is_dir_def)
  with mem have "\<exists>d \<in> set object_dirs. length (mesh_candidates fs d) \<noteq> 1"
    by (intro bexI [of _ "cad_model_dir @ [n]"]) simp_all
  from object_dirs_loop_fail [OF this, of "[]"] Inr show ?thesis
    by (simp add: make_object_dataset_def)
qed

text \<open>
  The catalog of \<^verbatim>\<open>output_visualization\<close> is built from the example directory
  itself. Whenever the observation has loaded, that directory holds the file
  \<^verbatim>\<open>image_rgb.png\<close>, which has no mesh inside, so the call never gets as far as
  the renderer.
\<close>

lemma output_visualization_always_fails:
  "\<exists>e. output_visualization B fs example_dir = (Inl e, fs)"
proof (cases "load_observation (camera_json B) fs example_dir False")
  case (Inl e)
  then show ?thesis by (simp add: output_visualization_def)
next
  case (Inr r)
  from load_observation_opens_rgb [OF Inr] obtain im where
    "Image_open fs (example_dir @ [''image_rgb.png'']) = Inr im" by blast
  then have "map_of fs (example_dir @ [''image_rgb.png'']) = Some (File (Png im))"
    by (rule Image_open_is_file)
  from make_object_dataset_with_file [OF this, of "dataset_of B"] obtain e where
    e: "make_object_dataset (dataset_of B) fs example_dir = Inl e" by blast
  obtain rgb unused cam where r: "r = (rgb, unused, cam)" by (cases r) auto
  show ?thesis
    by (cases "load_object_data (object_json B) fs
          (example_dir @ [''outputs'', ''object_data.json''])")
       (simp_all add: output_visualization_def Inr r e)
qed

lemma mkdir_exist_ok_map:
  assumes "map_of fs p = Some Dir \<or> (map_of fs p = None \<and> parent_exists fs p)"
  shows "\<exists>fs1. mkdir_exist_ok fs p = Inr fs1 \<and> map_of fs1 = (map_of fs)(p \<mapsto> Dir)"
  using assms by (auto simp: mkdir_exist_ok_def update_conv' fun_upd_idem)

lemma parent_exists_child:
  "map_of fs p = Some Dir \<Longrightarrow> parent_exists fs (p @ [n])"
  by (simp add: parent_exists_def is_dir_def)

lemma those_map_Some: "those (map (\<lambda>x. Some (f x)) xs) = Some (map f xs)"
  by (induction xs) simp_all

lemma parse_numbers_stored:
  "parse_numbers (map_json stored (json_numbers xs)) = Some (map stored xs)"
  by (simp add: json_numbers_def comp_def those_map_Some)

lemma parse_matrix_stored:
  "parse_matrix (map_json stored (json_matrix m)) = Some (map (map stored) m)"
  by (simp add: json_matrix_def comp_def parse_numbers_stored those_map_Some)

lemma or_null_matrix_stored:
  "or_null parse_matrix (map_json stored (json_matrix m)) = Some (Some (map (map stored) m))"
proof -
  obtain rows where rows: "map_json stored (json_matrix m) = JArr rows"
    by (simp add: json_matrix_def)
  have "or_null parse_matrix (JArr rows) = map_option Some (parse_matrix (JArr rows))"
    by (simp add: or_null_def)
  then show ?thesis
    using parse_matrix_stored [of stored m] by (simp add: rows)
qed

lemma from_json_stored:
  "ObjectData_from_json
     (map_json stored (ObjectData_to_json \<lparr>label = lbl, bbox_modal = None, TWO = Some pose\<rparr>))
     = Inr \<lparr>label = lbl, bbox_modal = None, TWO = Some (map (map stored) pose)\<rparr>"
  by (simp add: ObjectData_from_json_def ObjectData_to_json_def json_member_def
      or_null_matrix_stored)
     (simp add: or_null_def)

lemma from_json_each_stored:
  "from_json_each (map (\<lambda>(lbl, pose). map_json stored
       (ObjectData_to_json \<lparr>label = lbl, bbox_modal = None, TWO = Some pose\<rparr>)) lps)
     = Inr (map (\<lambda>(lbl, pose).
         \<lparr>label = lbl, bbox_modal = None, TWO = Some (map (map stored) pose)\<rparr>) lps)"
  by (induction lps) (auto simp: from_json_stored)

lemma decode_stored:
  assumes "loads txt = Inr (map_json stored (JArr (map ObjectData_to_json (pose_object_data x))))"
  shows "decode_object_data loads txt =
     Inr (map (\<lambda>(lbl, pose).
         \<lparr>label = lbl, bbox_modal = None, TWO = Some (map (map stored) pose)\<rparr>)
       (zip (infos_label x) (poses x)))"
proof -
  have "map (map_json stored) (map ObjectData_to_json (pose_object_data x)) =
      map (\<lambda>(lbl, pose). map_json stored
        (ObjectData_to_json \<lparr>label = lbl, bbox_modal = None, TWO = Some pose\<rparr>))
        (zip (infos_label x) (poses x))"
    by (simp add: pose_object_data_def Transform_def comp_def case_prod_unfold)
  with assms show ?thesis
    by (simp add: decode_object_data_def from_json_each_stored)
qed

lemma matrix_close_stored:
  assumes "\<forall>v. \<bar>stored v - v\<bar> \<le> eps"
  shows "matrix_close eps (map (map stored) m) m"
  using assms
  by (simp add: matrix_close_def list_all2_map1 list_all2_same)

lemma write_text_map:
  assumes "map_of fs p \<noteq> Some Dir" "parent_exists fs p"
  shows "\<exists>fs1. write_text fs p s = Inr fs1 \<and> map_of fs1 = (map_of fs)(p \<mapsto> File (Text s))"
  using assms
  by (auto simp: write_text_def update_conv' split: option.splits entry.splits)

lemma save_predictions_writes:
  assumes "map_of fs example_dir = Some Dir
        \<or> (map_of fs example_dir = None \<and> parent_exists fs example_dir)"
    and "map_of fs (example_dir @ [''object_data.json'']) \<noteq> Some Dir"
  shows "\<exists>fs'. save_predictions dumps fs example_dir x = (Inr (), fs')
           \<and> read_text fs' (example_dir @ [''object_data.json''])
               = Inr (dumps (JArr (map ObjectData_to_json (pose_object_data x))))
           \<and> (\<forall>q. q \<noteq> example_dir \<and> q \<noteq> example_dir @ [''object_data.json'']
                 \<longrightarrow> map_of fs' q = map_of fs q)"
proof -
  let ?out = "example_dir @ [''object_data.json'']"
  let ?txt = "dumps (JArr (map ObjectData_to_json (pose_object_data x)))"
  from mkdir_exist_ok_map [OF assms(1)] obtain fs1 where
    1: "mkdir_exist_ok fs example_dir = Inr fs1" "map_of fs1 = (map_of fs)(example_dir \<mapsto> Dir)"
    by blast
  have p: "parent_exists fs1 ?out"
    by (rule parent_exists_child) (simp add: 1)
  have d: "map_of fs1 ?out \<noteq> Some Dir"
    using assms(2) by (simp add: 1)
  from write_text_map [OF d p, of ?txt] obtain fs2 where
    2: "write_text fs1 ?out ?txt = Inr fs2" "map_of fs2 = (map_of fs1)(?out \<mapsto> File (Text ?txt))"
    by blast
  have "save_predictions dumps fs example_dir x = (Inr (), fs2)"
    by (simp add: save_predictions_def Let_def 1(1) 2(1))
  moreover have "read_text fs2 ?out = Inr ?txt"
    by (simp add: read_text_def 2(2))
  moreover have "\<forall>q. q \<noteq> example_dir \<and> q \<noteq> ?out \<longrightarrow> map_of fs2 q = map_of fs q"
    by (simp add: 1(2) 2(2))
  ultimately show ?thesis by blast
qed

text \<open>
  C1. For a pose-estimate set with as many labels as poses and an example directory that
  exists (or can be created) and holds no directory named \<^verbatim>\<open>object_data.json\<close>,
  \<^verbatim>\<open>save_predictions\<close> succeeds, and \<^verbatim>\<open>load_object_data\<close> on the
  file it wrote returns one record per pose, in order, with the same labels, no bounding
  box, and a transform of the same shape whose entries are within \<open>eps\<close> of the saved
  ones. Here the JSON text is taken to read back as the document written with every number
  \<open>v\<close> replaced by some \<open>stored v\<close> within \<open>eps\<close> of it (the serialization precision),
  and the records are encoded after the spec's schema.
\<close>

theorem save_then_load_round_trip:
  assumes "length (infos_label x) = length (poses x)"
    and "map_of fs example_dir = Some Dir
        \<or> (map_of fs example_dir = None \<and> parent_exists fs example_dir)"
    and "map_of fs (example_dir @ [''object_data.json'']) \<noteq> Some Dir"
    and "\<forall>v. \<bar>stored v - v\<bar> \<le> eps"
    and "loads (dumps (JArr (map ObjectData_to_json (pose_object_data x))))
           = Inr (map_json stored (JArr (map ObjectData_to_json (pose_object_data x))))"
  shows "\<exists>fs' ds. save_predictions dumps fs example_dir x = (Inr (), fs')
           \<and> load_object_data (decode_object_data loads) fs'
                (example_dir @ [''object_data.json'']) = Inr ds
           \<and> map label ds = infos_label x
           \<and> list_all2 (\<lambda>d pose. bbox_modal d = None
                  \<and> (\<exists>m. TWO d = Some m \<and> matrix_close eps m pose)) ds (poses x)"
proof -
  let ?ds = "map (\<lambda>(lbl, pose).
      \<lparr>label = lbl, bbox_modal = None, TWO = Some (map (map stored) pose)\<rparr>)
    (zip (infos_label x) (poses x))"
  from save_predictions_writes [OF assms(2,3), of dumps x] obtain fs' where
    s: "save_predictions dumps fs example_dir x = (Inr (), fs')"
      "read_text fs' (example_dir @ [''object_data.json''])
         = Inr (dumps (JArr (map ObjectData_to_json (pose_object_data x))))"
    by blast
  have l: "load_object_data (decode_object_data loads) fs'
      (example_dir @ [''object_data.json'']) = Inr ?ds"
    by (simp add: load_object_data_def s(2) decode_stored [of loads _ stored x, OF assms(5)])
  have labels: "map label ?ds = infos_label x"
    using assms(1) by (simp add: comp_def case_prod_unfold map_fst_zip)
  have close: "list_all2 (\<lambda>d pose. bbox_modal d = None
      \<and> (\<exists>m. TWO d = Some m \<and> matrix_close eps m pose)) ?ds (poses x)"
    using assms(1) matrix_close_stored [OF assms(4)]
    by (simp add: list_all2_conv_all_nth case_prod_unfold)
  from s(1) l labels close show ?thesis by blast
qed

lemma stored0_close: "\<forall>v. \<bar>stored0 v - v\<bar> \<le> 1 / 1000000"
proof
  fix v :: real
  have "\<bar>real_of_int (round (v * 1000000)) - v * 1000000\<bar> \<le> 1 / 2"
    by (rule of_int_round_abs_le)
  then have "\<bar>(real_of_int (round (v * 1000000)) - v * 1000000) / 1000000\<bar> \<le> 1 / 2 / 1000000"
    by (simp add: field_simps)
  moreover have "(real_of_int (round (v * 1000000)) - v * 1000000) / 1000000 = stored0 v - v"
    by (simp add: stored0_def field_simps)
  ultimately show "\<bar>stored0 v - v\<bar> \<le> 1 / 1000000"
    by simp
qed

lemma stored0_sample: "stored0 (1234567 / 10000000) = 123457 / 1000000"
proof -
  have "round (1234567 / 10 :: real) = 123457"
    by (simp add: round_def floor_eq_iff)
  then show ?thesis by (simp add: stored0_def)
qed

theorem save_then_load_round_trip_witness:
  "\<exists>fs' ds. save_predictions dumps0 fs_example [''ex''] estimates1 = (Inr (), fs')
      \<and> load_object_data (decode_object_data loads0) fs' ([''ex''] @ [''object_data.json''])
           = Inr ds
      \<and> map label ds = [''obj_000002'']
      \<and> list_all2 (\<lambda>d pose. bbox_modal d = None
             \<and> (\<exists>m. TWO d = Some m \<and> matrix_close (1 / 1000000) m pose)) ds [T1]
      \<and> T1 ! 0 ! 3 = 1234567 / 10000000
      \<and> (\<exists>m. TWO (hd ds) = Some m \<and> m ! 0 ! 3 = 123457 / 1000000)"
proof -
  have len: "length (infos_label estimates1) = length (poses estimates1)"
    by (simp add: estimates1_def)
  have dir: "map_of fs_example [''ex''] = Some Dir
      \<or> (map_of fs_example [''ex''] = None \<and> parent_exists fs_example [''ex''])"
    by (simp add: fs_example_def)
  have out: "map_of fs_example ([''ex''] @ [''object_data.json'']) \<noteq> Some Dir"
    by (simp add: fs_example_def)
  have codec: "loads0 (dumps0 (JArr (map ObjectData_to_json (pose_object_data estimates1))))
      = Inr (map_json stored0 (JArr (map ObjectData_to_json (pose_object_data estimates1))))"
    by (simp add: loads0_def dumps0_def)
  from save_then_load_round_trip
    [of estimates1 fs_example "[''ex'']" stored0 "1 / 1000000" loads0 dumps0,
      OF len dir out stored0_close codec]
  obtain fs' ds where
    r: "save_predictions dumps0 fs_example [''ex''] estimates1 = (Inr (), fs')"
      "load_object_data (decode_object_data loads0) fs' ([''ex''] @ [''object_data.json''])
         = Inr ds"
      "map label ds = [''obj_000002'']"
      "list_all2 (\<lambda>d pose. bbox_modal d = None
         \<and> (\<exists>m. TWO d = Some m \<and> matrix_close (1 / 1000000) m pose)) ds [T1]"
    by (auto simp: estimates1_def)
  from save_predictions_writes [OF dir out, of dumps0 estimates1] r(1)
  have "read_text fs' ([''ex''] @ [''object_data.json''])
      = Inr (dumps0 (JArr (map ObjectData_to_json (pose_object_data estimates1))))"
    by auto
  with r(2) decode_stored [of loads0 _ stored0 estimates1, OF codec]
  have "ds = [\<lparr>label = ''obj_000002'', bbox_modal = None,
      TWO = Some (map (map stored0) T1)\<rparr>]"
    by (simp add: load_object_data_def estimates1_def)
  then have loaded: "\<exists>m. TWO (hd ds) = Some m \<and> m ! 0 ! 3 = 123457 / 1000000"
    by (simp add: T1_def stored0_sample)
  have saved: "T1 ! 0 ! 3 = 1234567 / 10000000"
    by (simp add: T1_def)
  show ?thesis
    using r saved loaded by (intro exI [of _ fs'] exI [of _ ds] conjI)
qed


text \<open>
  C8. The claim does not hold of the code. The scene below has one persisted pose, which
  loads, and one matching mesh directory, and every collaborator succeeds; yet
  \<^verbatim>\<open>output_visualization\<close> fails on the assertion of
  \<^verbatim>\<open>make_object_dataset\<close> (line 162, reached from line 79) before the renderer is
  called, and leaves the file system as it was: no PNG file and no
  \<^verbatim>\<open>visualizations\<close> directory.
\<close>

theorem output_visualization_fails_on_scene:
  "load_object_data (object_json backends0) fs_scene [''ex'', ''outputs'', ''object_data.json'']
     = Inr [\<lparr>label = ''obj_000001'', bbox_modal = None, TWO = Some (eye 4)\<rparr>]
   \<and> mesh_candidates fs_scene [''ex'', ''obj_000001'']
       = [[''ex'', ''obj_000001'', ''obj_000001.ply'']]
   \<and> output_visualization backends0 fs_scene [''ex''] = (Inl AssertionError, fs_scene)
   \<and> map_of (snd (output_visualization backends0 fs_scene [''ex'']))
         [''ex'', ''visualizations''] = None"
proof -
  have cands: "mesh_candidates fs_scene [''ex'', ''obj_000001'']
      = [[''ex'', ''obj_000001'', ''obj_000001.ply'']]"
    by (simp add: fs_scene_def mesh_candidates_def glob_star_def children_def is_dir_def
        is_mesh_def suffix_def name_def rfind_def)
  have "map_of fs_scene [''ex'', ''visualizations''] = None"
    by (simp add: fs_scene_def)
  with cands load_object_data_fs_scene output_visualization_fs_scene show ?thesis
    by simp
qed

text \<open>
  \<^verbatim>\<open>Megapose.inference\<close> always builds exactly one annotation from its label and
  its box: no call hands the detection adapter an empty list.
\<close>

lemma inference_object_data_single: "length (inference_object_data lbl bbox) = 1"
  by (simp add: inference_object_data_def)

end
